theory Spec2Isabelle
  imports Main "HOL-Library.Sublist"
begin

section \<open>Values exchanged with the panel\<close>

text \<open>
  The client of \<^verbatim>\<open>services/xui_client.py\<close> handles the panel's answers as the Python
  values that \<^verbatim>\<open>json.loads\<close> produces: \<^verbatim>\<open>None\<close>, booleans, integers, strings,
  lists and dictionaries. A dictionary is an association list in insertion order, read
  with \<open>map_of\<close>. Strings are byte strings (the UTF-8 encoding of the Python text).
  Floating-point numbers are left out: no operation modelled here computes with one.
\<close>

datatype json =
    JNull
  | JBool bool
  | JInt int
  | JStr string
  | JArr "json list"
  | JObj "(string \<times> json) list"

text \<open>
  Every \<^verbatim>\<open>raise XUIClientError(f"...")\<close> of the source is one constructor of
  \<open>xui_msg\<close>: the message template, applied to the values its f-string interpolates.
\<close>

datatype xui_msg =
    ClientNotInitialized
  | UnsupportedMethod string
  | ApiRequestFailed nat
  | NetworkFailure
  | InvalidJSONResponse
  | ConnectionFailed string
  | ConnectionTimeout string
  | LoginFailedRequest
  | LoginFailedNoCookie
  | LoginFailedStatus nat
  | ClientAlreadyExists json
  | DuplicateEmail string
  | FailedToCreateClient json
  | FailedToDeleteClient json

datatype error =
    XUIClientError xui_msg
  | JSONDecodeError
  | TypeError
  | AttributeError
  | KeyError
  | IndexError
  | RecursionError
  | ValueError

text \<open>Sequencing of steps that may raise: the first exception ends the computation.\<close>

definition ebind :: "error + 'a \<Rightarrow> ('a \<Rightarrow> error + 'b) \<Rightarrow> error + 'b" where
  "ebind m f = (case m of Inl e \<Rightarrow> Inl e | Inr x \<Rightarrow> f x)"

subsection \<open>The HTTP exchange\<close>

datatype http_method = GET | POST

datatype payload = NoBody | JsonBody "json option" | FormBody "(string \<times> string) list"

record request =
  req_method :: http_method
  req_url :: string
  req_cookie :: "string option"
  req_body :: payload

record response =
  status_code :: nat
  cookies :: "(string \<times> string) list"
  body :: string

text \<open>
  The three families of \<^verbatim>\<open>httpx.RequestError\<close> that \<^verbatim>\<open>login\<close> tells apart;
  \<open>RequestError\<close> stands for every other member.
\<close>

datatype net_error = ConnectError | TimeoutException | RequestError

type_synonym reply = "net_error + response"

text \<open>
  What lies outside the repository is a parameter: the standard library's
  \<^verbatim>\<open>json.loads\<close> on a text (\<open>Inl\<close> is the exception it raises: \<^verbatim>\<open>JSONDecodeError\<close>
  for a text that is not JSON, but also \<^verbatim>\<open>RecursionError\<close> for a text nested too deeply
  and \<^verbatim>\<open>ValueError\<close> for an integer beyond the digit limit) and \<^verbatim>\<open>json.dumps\<close>,
  \<^verbatim>\<open>repr\<close> of a list or dictionary, and the remote panel, which answers each request
  as a function of all requests sent so far (the last one is the current request).
\<close>

record world =
  json_loads :: "string \<Rightarrow> error + json"
  json_dumps :: "json \<Rightarrow> string"
  py_repr :: "json \<Rightarrow> string"
  panel :: "request list \<Rightarrow> reply"

text \<open>
  The fields of \<^verbatim>\<open>XUIClient\<close>. \<open>client\<close> tells whether the HTTP client has been
  created; \<open>sent\<close> is the history of requests issued through it, in order.
\<close>

record xui =
  base_url :: string
  username :: string
  password :: string
  session_cookie :: "string option"
  client :: bool
  sent :: "request list"

definition send :: "world \<Rightarrow> request \<Rightarrow> xui \<Rightarrow> reply \<times> xui" where
  "send W req s = (panel W (sent s @ [req]), s\<lparr>sent := sent s @ [req]\<rparr>)"

section \<open>Python operations on values\<close>

definition truthy :: "json \<Rightarrow> bool" where
  "truthy j =
     (case j of
        JNull \<Rightarrow> False
      | JBool b \<Rightarrow> b
      | JInt i \<Rightarrow> i \<noteq> 0
      | JStr s \<Rightarrow> s \<noteq> []
      | JArr xs \<Rightarrow> xs \<noteq> []
      | JObj kvs \<Rightarrow> kvs \<noteq> [])"

text \<open>\<^verbatim>\<open>d.get(k, default)\<close>: only a dictionary has the method.\<close>

definition dict_get :: "json \<Rightarrow> string \<Rightarrow> json \<Rightarrow> error + json" where
  "dict_get d k dflt =
     (case d of
        JObj kvs \<Rightarrow> Inr (case map_of kvs k of Some v \<Rightarrow> v | None \<Rightarrow> dflt)
      | _ \<Rightarrow> Inl AttributeError)"

text \<open>\<^verbatim>\<open>d[k]\<close> for a string key.\<close>

definition dict_index :: "json \<Rightarrow> string \<Rightarrow> error + json" where
  "dict_index d k =
     (case d of
        JObj kvs \<Rightarrow> (case map_of kvs k of Some v \<Rightarrow> Inr v | None \<Rightarrow> Inl KeyError)
      | _ \<Rightarrow> Inl TypeError)"

text \<open>
  Texts are kept as their UTF-8 bytes. The characters of a text: a byte below \<^verbatim>\<open>0xC0\<close>
  starts a character of one byte, one below \<^verbatim>\<open>0xE0\<close> a character of two, one below
  \<^verbatim>\<open>0xF0\<close> a character of three, any other a character of four.
\<close>

definition utf8_width :: "char \<Rightarrow> nat" where
  "utf8_width c =
     (if (of_char c :: nat) < 0xC0 then 1
      else if (of_char c :: nat) < 0xE0 then 2
      else if (of_char c :: nat) < 0xF0 then 3
      else 4)"

function utf8_chars :: "string \<Rightarrow> string list" where
  "utf8_chars s =
     (if s = [] then []
      else take (utf8_width (hd s)) s # utf8_chars (drop (utf8_width (hd s)) s))"
  by pat_completeness auto
termination
  by (relation "measure length") (auto simp: utf8_width_def)

declare utf8_chars.simps [simp del]

text \<open>\<^verbatim>\<open>xs[0]\<close>, used by the source only after \<^verbatim>\<open>xs\<close> was found truthy.\<close>

definition first_item :: "json \<Rightarrow> error + json" where
  "first_item j =
     (case j of
        JArr xs \<Rightarrow> (case xs of [] \<Rightarrow> Inl IndexError | x # _ \<Rightarrow> Inr x)
      | JStr s \<Rightarrow> (case utf8_chars s of [] \<Rightarrow> Inl IndexError | c # _ \<Rightarrow> Inr (JStr c))
      | JObj kvs \<Rightarrow> Inl KeyError
      | _ \<Rightarrow> Inl TypeError)"

text \<open>The items a \<^verbatim>\<open>for\<close> loop visits.\<close>

definition py_iter :: "json \<Rightarrow> error + json list" where
  "py_iter j =
     (case j of
        JArr xs \<Rightarrow> Inr xs
      | JObj kvs \<Rightarrow> Inr (map (\<lambda>kv. JStr (fst kv)) kvs)
      | JStr s \<Rightarrow> Inr (map JStr (utf8_chars s))
      | _ \<Rightarrow> Inl TypeError)"

text \<open>\<^verbatim>\<open>json.loads(x)\<close>: a value that is not text is a \<^verbatim>\<open>TypeError\<close>.\<close>

definition loads :: "world \<Rightarrow> json \<Rightarrow> error + json" where
  "loads W j =
     (case j of
        JStr s \<Rightarrow> json_loads W s
      | _ \<Rightarrow> Inl TypeError)"

definition as_int :: "json \<Rightarrow> int option" where
  "as_int j =
     (case j of
        JInt i \<Rightarrow> Some i
      | JBool b \<Rightarrow> Some (if b then 1 else 0)
      | _ \<Rightarrow> None)"

text \<open>\<^verbatim>\<open>a + b\<close>: numbers add (a boolean counts as 0 or 1), texts and lists concatenate.\<close>

definition py_add :: "json \<Rightarrow> json \<Rightarrow> error + json" where
  "py_add a b =
     (case (as_int a, as_int b) of
        (Some x, Some y) \<Rightarrow> Inr (JInt (x + y))
      | _ \<Rightarrow>
        (case (a, b) of
           (JStr x, JStr y) \<Rightarrow> Inr (JStr (x @ y))
         | (JArr x, JArr y) \<Rightarrow> Inr (JArr (x @ y))
         | _ \<Rightarrow> Inl TypeError))"

subsection \<open>Text\<close>

definition digit_char :: "nat \<Rightarrow> char" where
  "digit_char d = ''0123456789ABCDEF'' ! d"

function show_nat :: "nat \<Rightarrow> string" where
  "show_nat n = (if n < 10 then [digit_char n] else show_nat (n div 10) @ [digit_char (n mod 10)])"
  by pat_completeness auto
termination
  by (relation "measure id") auto

definition show_int :: "int \<Rightarrow> string" where
  "show_int i = (if i < 0 then CHR ''-'' # show_nat (nat (- i)) else show_nat (nat i))"

text \<open>\<^verbatim>\<open>str(x)\<close>, which is also what an f-string writes for \<^verbatim>\<open>{x}\<close>.\<close>

definition py_str :: "world \<Rightarrow> json \<Rightarrow> string" where
  "py_str W j =
     (case j of
        JStr s \<Rightarrow> s
      | JInt i \<Rightarrow> show_int i
      | JBool b \<Rightarrow> (if b then ''True'' else ''False'')
      | JNull \<Rightarrow> ''None''
      | _ \<Rightarrow> py_repr W j)"

fun str_join :: "string \<Rightarrow> string list \<Rightarrow> string" where
  "str_join sep [] = []"
| "str_join sep [x] = x"
| "str_join sep (x # y # ys) = x @ sep @ str_join sep (y # ys)"

definition upper_char :: "char \<Rightarrow> char" where
  "upper_char c =
     (case map_of (zip ''abcdefghijklmnopqrstuvwxyz'' ''ABCDEFGHIJKLMNOPQRSTUVWXYZ'') c of
        Some d \<Rightarrow> d
      | None \<Rightarrow> c)"

definition lower_char :: "char \<Rightarrow> char" where
  "lower_char c =
     (case map_of (zip ''ABCDEFGHIJKLMNOPQRSTUVWXYZ'' ''abcdefghijklmnopqrstuvwxyz'') c of
        Some d \<Rightarrow> d
      | None \<Rightarrow> c)"

text \<open>\<^verbatim>\<open>s.upper()\<close> and \<^verbatim>\<open>s.lower()\<close> on the ASCII letters; other bytes are kept.\<close>

definition upper :: "string \<Rightarrow> string" where
  "upper s = map upper_char s"

definition lower :: "string \<Rightarrow> string" where
  "lower s = map lower_char s"

section \<open>The session and the request executor\<close>

text \<open>\<^verbatim>\<open>XUIClient.__init__\<close>: the base address loses its trailing slashes.\<close>

definition rstrip_slash :: "string \<Rightarrow> string" where
  "rstrip_slash u = rev (dropWhile (\<lambda>c. c = CHR ''/'') (rev u))"

definition init :: "string \<Rightarrow> string \<Rightarrow> string \<Rightarrow> xui" where
  "init url user pass =
     \<lparr>base_url = rstrip_slash url, username = user, password = pass,
      session_cookie = None, client = False, sent = []\<rparr>"

text \<open>
  \<^verbatim>\<open>XUIClient.login\<close>. An exception raised inside its \<^verbatim>\<open>try\<close> that is not a
  request error reaches the last handler and is raised again as \<^verbatim>\<open>XUIClientError\<close>.
\<close>

definition login :: "world \<Rightarrow> xui \<Rightarrow> (error + bool) \<times> xui" where
  "login W s =
     (let login_url = base_url s @ ''/login'';
          (r, s1) = send W \<lparr>req_method = POST, req_url = login_url, req_cookie = None,
                      req_body = FormBody [(''username'', username s),
                                           (''password'', password s)]\<rparr> s
      in case r of
           Inl ConnectError \<Rightarrow> (Inl (XUIClientError (ConnectionFailed login_url)), s1)
         | Inl TimeoutException \<Rightarrow> (Inl (XUIClientError (ConnectionTimeout login_url)), s1)
         | Inl RequestError \<Rightarrow> (Inl (XUIClientError LoginFailedRequest), s1)
         | Inr resp \<Rightarrow>
             if status_code resp = 200 then
               (if cookies resp \<noteq> [] then
                  (Inr True,
                   s1\<lparr>session_cookie :=
                        Some (str_join ''; '' (map (\<lambda>(name, v). name @ ''='' @ v) (cookies resp)))\<rparr>)
                else (Inl (XUIClientError LoginFailedNoCookie), s1))
             else (Inl (XUIClientError (LoginFailedStatus (status_code resp))), s1))"

text \<open>The \<^verbatim>\<open>Cookie\<close> header: present when the stored session cookie is truthy.\<close>

definition cookie_header :: "xui \<Rightarrow> string option" where
  "cookie_header s =
     (case session_cookie s of None \<Rightarrow> None | Some c \<Rightarrow> (if c = [] then None else Some c))"

text \<open>
  \<^verbatim>\<open>XUIClient._make_request\<close>. \<open>None\<close> of \<open>build_request\<close> is the branch that raises
  for a method other than GET and POST. Of the exceptions of \<^verbatim>\<open>response.json()\<close> only
  \<^verbatim>\<open>JSONDecodeError\<close> is caught and raised again as \<^verbatim>\<open>XUIClientError\<close>.
\<close>

definition build_request :: "string \<Rightarrow> string \<Rightarrow> json option \<Rightarrow> string option \<Rightarrow> request option" where
  "build_request method url data hdr =
     (if upper method = ''GET'' then
        Some \<lparr>req_method = GET, req_url = url, req_cookie = hdr, req_body = NoBody\<rparr>
      else if upper method = ''POST'' then
        Some \<lparr>req_method = POST, req_url = url, req_cookie = hdr, req_body = JsonBody data\<rparr>
      else None)"

function make_request ::
  "world \<Rightarrow> string \<Rightarrow> string \<Rightarrow> json option \<Rightarrow> bool \<Rightarrow> xui \<Rightarrow> (error + json) \<times> xui" where
  "make_request W method endpoint data retry_on_auth_error s =
     (if \<not> client s then (Inl (XUIClientError ClientNotInitialized), s)
      else
        (case build_request method (base_url s @ endpoint) data (cookie_header s) of
           None \<Rightarrow> (Inl (XUIClientError (UnsupportedMethod method)), s)
         | Some req \<Rightarrow>
             (case send W req s of
                (Inl e, s1) \<Rightarrow> (Inl (XUIClientError NetworkFailure), s1)
              | (Inr resp, s1) \<Rightarrow>
                  if status_code resp = 401 \<and> retry_on_auth_error then
                    (case login W s1 of
                       (Inl e, s2) \<Rightarrow> (Inl e, s2)
                     | (Inr ok, s2) \<Rightarrow> make_request W method endpoint data False s2)
                  else if status_code resp \<ge> 400 then
                    (Inl (XUIClientError (ApiRequestFailed (status_code resp))), s1)
                  else
                    (case json_loads W (body resp) of
                       Inl e \<Rightarrow>
                         if e = JSONDecodeError then (Inl (XUIClientError InvalidJSONResponse), s1)
                         else (Inl e, s1)
                     | Inr v \<Rightarrow> (Inr v, s1)))))"
  by pat_completeness auto
termination
  by (relation "measure (\<lambda>(W, method, endpoint, data, retry, s). if retry then 1 else 0)") auto

section \<open>Library functions on text\<close>

text \<open>\<^verbatim>\<open>urllib.parse.quote\<close>, byte by byte: letters, digits, \<^verbatim>\<open>_.-~\<close> and the
  bytes of \<open>safe\<close> are kept, every other byte becomes \<^verbatim>\<open>%XX\<close>.\<close>

definition always_safe :: "char \<Rightarrow> bool" where
  "always_safe c =
     (c \<in> set ''ABCDEFGHIJKLMNOPQRSTUVWXYZabcdefghijklmnopqrstuvwxyz0123456789_.-~'')"

definition percent :: "char \<Rightarrow> string" where
  "percent c =
     [CHR ''%'', digit_char ((of_char c :: nat) div 16), digit_char ((of_char c :: nat) mod 16)]"

definition quote_from_bytes :: "string \<Rightarrow> string \<Rightarrow> string" where
  "quote_from_bytes safe bs =
     concat (map (\<lambda>c. if always_safe c \<or> c \<in> set safe then [c] else percent c) bs)"

text \<open>\<^verbatim>\<open>quote(x, safe)\<close> accepts text only.\<close>

definition quote :: "string \<Rightarrow> json \<Rightarrow> error + string" where
  "quote safe j = (case j of JStr s \<Rightarrow> Inr (quote_from_bytes safe s) | _ \<Rightarrow> Inl TypeError)"

definition quote_plus :: "string \<Rightarrow> string \<Rightarrow> string" where
  "quote_plus safe s =
     (if CHR '' '' \<notin> set s then quote_from_bytes safe s
      else map (\<lambda>c. if c = CHR '' '' then CHR ''+'' else c) (quote_from_bytes (safe @ '' '') s))"

text \<open>\<^verbatim>\<open>urlencode(params, safe=...)\<close>: \<^verbatim>\<open>str\<close> of each key and value, quoted, joined.\<close>

definition urlencode :: "world \<Rightarrow> string \<Rightarrow> (string \<times> json) list \<Rightarrow> string" where
  "urlencode W safe params =
     str_join ''&''
       (map (\<lambda>kv. quote_plus safe (fst kv) @ ''='' @ quote_plus safe (py_str W (snd kv))) params)"

text \<open>\<^verbatim>\<open>base64.b64encode\<close>.\<close>

definition b64_char :: "nat \<Rightarrow> char" where
  "b64_char n = ''ABCDEFGHIJKLMNOPQRSTUVWXYZabcdefghijklmnopqrstuvwxyz0123456789+/'' ! n"

fun b64encode :: "string \<Rightarrow> string" where
  "b64encode [] = []"
| "b64encode [a] =
     (let x = (of_char a :: nat)
      in [b64_char (x div 4), b64_char ((x mod 4) * 16), CHR ''='', CHR ''=''])"
| "b64encode [a, b] =
     (let x = (of_char a :: nat); y = (of_char b :: nat)
      in [b64_char (x div 4), b64_char ((x mod 4) * 16 + y div 16),
          b64_char ((y mod 16) * 4), CHR ''=''])"
| "b64encode (a # b # c # rest) =
     (let x = (of_char a :: nat); y = (of_char b :: nat); z = (of_char c :: nat)
      in [b64_char (x div 4), b64_char ((x mod 4) * 16 + y div 16),
          b64_char ((y mod 16) * 4 + z div 64), b64_char (z mod 64)] @ b64encode rest)"

text \<open>\<^verbatim>\<open>s.replace(old, new)\<close>: every occurrence, left to right, without overlap.\<close>

function replace :: "string \<Rightarrow> string \<Rightarrow> string \<Rightarrow> string" where
  "replace old new s =
     (if old = [] then concat (map (\<lambda>c. new @ [c]) s) @ new
      else if s = [] then []
      else if prefix old s then new @ replace old new (drop (length old) s)
      else hd s # replace old new (tl s))"
  by pat_completeness auto
termination
  by (relation "measure (\<lambda>(old, new, s). length s)") auto

text \<open>\<^verbatim>\<open>s.split(":")[0]\<close>.\<close>

definition before_colon :: "string \<Rightarrow> string" where
  "before_colon s = takeWhile (\<lambda>c. c \<noteq> CHR '':'') s"

text \<open>
  \<^verbatim>\<open>s.strip()\<close>. The characters that \<^verbatim>\<open>str.isspace\<close> accepts, each as its UTF-8 bytes:
  U+0009 to U+000D, U+001C to U+0020, U+0085, U+00A0, U+1680, U+2000 to U+200A, U+2028,
  U+2029, U+202F, U+205F and U+3000. In a UTF-8 text such a byte sequence at either end
  is that character.
\<close>

definition space_chars :: "string list" where
  "space_chars =
     [[CHR 0x09], [CHR 0x0A], [CHR 0x0B], [CHR 0x0C], [CHR 0x0D],
      [CHR 0x1C], [CHR 0x1D], [CHR 0x1E], [CHR 0x1F], [CHR 0x20],
      [CHR 0xC2, CHR 0x85], [CHR 0xC2, CHR 0xA0], [CHR 0xE1, CHR 0x9A, CHR 0x80],
      [CHR 0xE2, CHR 0x80, CHR 0x80], [CHR 0xE2, CHR 0x80, CHR 0x81],
      [CHR 0xE2, CHR 0x80, CHR 0x82], [CHR 0xE2, CHR 0x80, CHR 0x83],
      [CHR 0xE2, CHR 0x80, CHR 0x84], [CHR 0xE2, CHR 0x80, CHR 0x85],
      [CHR 0xE2, CHR 0x80, CHR 0x86], [CHR 0xE2, CHR 0x80, CHR 0x87],
      [CHR 0xE2, CHR 0x80, CHR 0x88], [CHR 0xE2, CHR 0x80, CHR 0x89],
      [CHR 0xE2, CHR 0x80, CHR 0x8A], [CHR 0xE2, CHR 0x80, CHR 0xA8],
      [CHR 0xE2, CHR 0x80, CHR 0xA9], [CHR 0xE2, CHR 0x80, CHR 0xAF],
      [CHR 0xE2, CHR 0x81, CHR 0x9F], [CHR 0xE3, CHR 0x80, CHR 0x80]]"

text \<open>Removes leading occurrences of the given byte sequences, as long as there is one.\<close>

function strip_left :: "string list \<Rightarrow> string \<Rightarrow> string" where
  "strip_left ws s =
     (case find (\<lambda>w. w \<noteq> [] \<and> prefix w s) ws of
        Some w \<Rightarrow> strip_left ws (drop (length w) s)
      | None \<Rightarrow> s)"
  by pat_completeness auto
termination
proof (relation "measure (\<lambda>(ws, s). length s)")
  show "wf (measure (\<lambda>(ws, s). length s))" by simp
next
  fix ws :: "string list" and s w :: string
  assume "find (\<lambda>w. w \<noteq> [] \<and> prefix w s) ws = Some w"
  then have "w \<noteq> []" and "prefix w s" by (auto simp: find_Some_iff)
  then obtain r where "s = w @ r" by (auto simp: prefix_def)
  with \<open>w \<noteq> []\<close> show "((ws, drop (length w) s), (ws, s)) \<in> measure (\<lambda>(ws, s). length s)"
    by simp
qed

definition lstrip :: "string \<Rightarrow> string" where
  "lstrip s = strip_left space_chars s"

definition rstrip :: "string \<Rightarrow> string" where
  "rstrip s = rev (strip_left (map rev space_chars) (rev s))"

definition strip :: "string \<Rightarrow> string" where
  "strip s = rstrip (lstrip s)"

text \<open>
  \<^verbatim>\<open>re.search(r'Duplicate email: (.+)', s)\<close>, giving \<^verbatim>\<open>group(1)\<close>: at the leftmost
  place where the literal is followed by a character other than a newline, the rest of
  that line.
\<close>

fun re_search_duplicate :: "string \<Rightarrow> string option" where
  "re_search_duplicate [] = None"
| "re_search_duplicate (c # cs) =
     (let rest = takeWhile (\<lambda>x. x \<noteq> CHR 0x0A) (drop (length ''Duplicate email: '') (c # cs))
      in if prefix ''Duplicate email: '' (c # cs) \<and> rest \<noteq> [] then Some rest
         else re_search_duplicate cs)"

text \<open>\<^verbatim>\<open>needle in x\<close> for a text needle.\<close>

definition py_contains :: "string \<Rightarrow> json \<Rightarrow> error + bool" where
  "py_contains needle j =
     (case j of
        JStr s \<Rightarrow> Inr (sublist needle s)
      | JArr xs \<Rightarrow> Inr (JStr needle \<in> set xs)
      | JObj kvs \<Rightarrow> Inr (needle \<in> fst ` set kvs)
      | _ \<Rightarrow> Inl TypeError)"

text \<open>\<^verbatim>\<open>sep.join(x)\<close>: the items must all be text.\<close>

definition join_strs :: "string \<Rightarrow> json \<Rightarrow> error + string" where
  "join_strs sep j =
     ebind (py_iter j) (\<lambda>xs.
       if \<forall>x \<in> set xs. (case x of JStr _ \<Rightarrow> True | _ \<Rightarrow> False)
       then Inr (str_join sep (map (\<lambda>x. case x of JStr t \<Rightarrow> t | _ \<Rightarrow> []) xs))
       else Inl TypeError)"

definition py_lower :: "json \<Rightarrow> error + string" where
  "py_lower j = (case j of JStr s \<Rightarrow> Inr (lower s) | _ \<Rightarrow> Inl AttributeError)"

text \<open>\<^verbatim>\<open>d[k] = v\<close>: an existing key keeps its place, a new key goes last.\<close>

fun dict_set :: "(string \<times> json) list \<Rightarrow> string \<Rightarrow> json \<Rightarrow> (string \<times> json) list" where
  "dict_set [] k v = [(k, v)]"
| "dict_set (kv # kvs) k v = (if fst kv = k then (k, v) # kvs else kv # dict_set kvs k v)"

section \<open>Client lifecycle operations\<close>

definition get_inbound :: "world \<Rightarrow> int \<Rightarrow> xui \<Rightarrow> (error + json) \<times> xui" where
  "get_inbound W inbound_id s =
     make_request W ''GET'' (''/panel/api/inbounds/get/'' @ show_int inbound_id) None True s"

text \<open>\<^verbatim>\<open>XUIClient.get_inbound_list\<close>.\<close>

definition get_inbound_list :: "world \<Rightarrow> xui \<Rightarrow> (error + json) \<times> xui" where
  "get_inbound_list W s =
     (case make_request W ''GET'' ''/panel/api/inbounds/list'' None True s of
        (Inl e, s1) \<Rightarrow> (Inl e, s1)
      | (Inr result, s1) \<Rightarrow>
          (ebind (dict_get result ''success'' JNull) (\<lambda>ok.
             if truthy ok then dict_get result ''obj'' (JArr []) else Inr (JArr [])), s1))"

text \<open>
  The loop \<^verbatim>\<open>for client in clients: if client.get("email") == email\<close>, which
  \<^verbatim>\<open>find_client_in_all_inbounds\<close> and \<^verbatim>\<open>get_client_link\<close> both run: the first
  client with the label, if any.
\<close>

fun find_in_clients :: "string \<Rightarrow> json list \<Rightarrow> error + json option" where
  "find_in_clients email [] = Inr None"
| "find_in_clients email (c # cs) =
     (case dict_get c ''email'' JNull of
        Inl e \<Rightarrow> Inl e
      | Inr label \<Rightarrow> if label = JStr email then Inr (Some c) else find_in_clients email cs)"

text \<open>
  The loop over the inbounds of \<^verbatim>\<open>XUIClient.find_client_in_all_inbounds\<close>. Only
  \<^verbatim>\<open>json.JSONDecodeError\<close> is caught (\<^verbatim>\<open>continue\<close>); \<open>JNull\<close> is the \<^verbatim>\<open>None\<close>
  returned after the loop.
\<close>

fun scan_inbounds :: "world \<Rightarrow> string \<Rightarrow> json list \<Rightarrow> error + json" where
  "scan_inbounds W email [] = Inr JNull"
| "scan_inbounds W email (inbound # rest) =
     (case dict_get inbound ''id'' JNull of
        Inl e \<Rightarrow> Inl e
      | Inr inbound_id \<Rightarrow>
     (case dict_get inbound ''settings'' (JStr ''{}'') of
        Inl e \<Rightarrow> Inl e
      | Inr settings_str \<Rightarrow>
     (case loads W settings_str of
        Inl e \<Rightarrow> if e = JSONDecodeError then scan_inbounds W email rest else Inl e
      | Inr settings_dict \<Rightarrow>
     (case ebind (dict_get settings_dict ''clients'' (JArr [])) (\<lambda>clients.
           ebind (py_iter clients) (find_in_clients email)) of
        Inl e \<Rightarrow> Inl e
      | Inr None \<Rightarrow> scan_inbounds W email rest
      | Inr (Some found) \<Rightarrow>
          ebind (dict_get inbound ''remark'' (JStr ''Unknown'')) (\<lambda>remark.
            Inr (JObj [(''inbound_id'', inbound_id), (''inbound_remark'', remark),
                       (''client'', found)]))))))"

definition find_client_in_all_inbounds ::
  "world \<Rightarrow> string \<Rightarrow> xui \<Rightarrow> (error + json) \<times> xui" where
  "find_client_in_all_inbounds W email s =
     (case get_inbound_list W s of
        (Inl e, s1) \<Rightarrow> (Inl e, s1)
      | (Inr inbounds, s1) \<Rightarrow> (ebind (py_iter inbounds) (scan_inbounds W email), s1))"

text \<open>The payload of \<^verbatim>\<open>create_client\<close>: one client with the default quota fields.\<close>

definition new_client_settings :: "string \<Rightarrow> string \<Rightarrow> bool \<Rightarrow> json" where
  "new_client_settings email uuid enable =
     JObj [(''clients'', JArr [JObj
       [(''id'', JStr uuid), (''email'', JStr email), (''enable'', JBool enable),
        (''flow'', JStr []), (''limitIp'', JInt 0), (''totalGB'', JInt 0),
        (''expiryTime'', JInt 0), (''tgId'', JStr []), (''subId'', JStr []),
        (''reset'', JInt 0)]])]"

text \<open>The exception raised by the failure branch of \<^verbatim>\<open>create_client\<close>.\<close>

definition create_failure :: "json \<Rightarrow> error" where
  "create_failure error_msg =
     (case py_contains ''Duplicate email'' error_msg of
        Inl e \<Rightarrow> e
      | Inr False \<Rightarrow> XUIClientError (FailedToCreateClient error_msg)
      | Inr True \<Rightarrow>
          (case error_msg of
             JStr m \<Rightarrow>
               (case re_search_duplicate m of
                  Some duplicate_email \<Rightarrow> XUIClientError (DuplicateEmail (strip duplicate_email))
                | None \<Rightarrow> XUIClientError (FailedToCreateClient error_msg))
           | _ \<Rightarrow> TypeError))"

text \<open>
  \<^verbatim>\<open>XUIClient.create_client\<close>. \<open>add_client\<close> is its second half, from the request
  to the create endpoint on; it runs when the scan found no client with the label.
\<close>

definition request_data :: "world \<Rightarrow> string \<Rightarrow> string \<Rightarrow> int \<Rightarrow> bool \<Rightarrow> json" where
  "request_data W email uuid inbound_id enable =
     JObj [(''id'', JInt inbound_id),
           (''settings'', JStr (json_dumps W (new_client_settings email uuid enable)))]"

definition add_client ::
  "world \<Rightarrow> string \<Rightarrow> string \<Rightarrow> int \<Rightarrow> bool \<Rightarrow> xui \<Rightarrow> (error + bool) \<times> xui" where
  "add_client W email uuid inbound_id enable s =
     (case make_request W ''POST'' ''/panel/api/inbounds/addClient''
             (Some (request_data W email uuid inbound_id enable)) True s of
        (Inl e, s1) \<Rightarrow> (Inl e, s1)
      | (Inr result, s1) \<Rightarrow>
          (ebind (dict_get result ''success'' JNull) (\<lambda>ok.
             if truthy ok then Inr True
             else ebind (dict_get result ''msg'' (JStr ''Unknown error'')) (\<lambda>error_msg.
                    Inl (create_failure error_msg))), s1))"

definition create_client ::
  "world \<Rightarrow> string \<Rightarrow> string \<Rightarrow> int \<Rightarrow> bool \<Rightarrow> xui \<Rightarrow> (error + bool) \<times> xui" where
  "create_client W email uuid inbound_id enable s =
     (case find_client_in_all_inbounds W email s of
        (Inl e, s1) \<Rightarrow> (Inl e, s1)
      | (Inr existing_client, s1) \<Rightarrow>
          if truthy existing_client then
            (case dict_index existing_client ''inbound_remark'' of
               Inl e \<Rightarrow> (Inl e, s1)
             | Inr inbound_remark \<Rightarrow> (Inl (XUIClientError (ClientAlreadyExists inbound_remark)), s1))
          else add_client W email uuid inbound_id enable s1)"

text \<open>\<^verbatim>\<open>XUIClient.get_client_traffic\<close>; the result is the dictionary with the keys
  \<^verbatim>\<open>up\<close>, \<^verbatim>\<open>down\<close> and \<^verbatim>\<open>total\<close>.\<close>

definition zero_traffic :: json where
  "zero_traffic = JObj [(''up'', JInt 0), (''down'', JInt 0), (''total'', JInt 0)]"

definition traffic_of :: "json \<Rightarrow> error + json" where
  "traffic_of result =
     ebind (dict_get result ''success'' JNull) (\<lambda>ok.
       if \<not> truthy ok then Inr zero_traffic
       else ebind (dict_get result ''obj'' JNull) (\<lambda>obj.
         if \<not> truthy obj then Inr zero_traffic
         else ebind (dict_get obj ''up'' (JInt 0)) (\<lambda>up.
              ebind (dict_get obj ''down'' (JInt 0)) (\<lambda>down.
              ebind (py_add up down) (\<lambda>total.
                Inr (JObj [(''up'', up), (''down'', down), (''total'', total)]))))))"

definition get_client_traffic :: "world \<Rightarrow> string \<Rightarrow> xui \<Rightarrow> (error + json) \<times> xui" where
  "get_client_traffic W email s =
     (case make_request W ''GET'' (''/panel/api/inbounds/getClientTraffics/'' @ email) None True s of
        (Inl e, s1) \<Rightarrow> (Inl e, s1)
      | (Inr result, s1) \<Rightarrow> (traffic_of result, s1))"

text \<open>\<^verbatim>\<open>XUIClient.delete_client\<close> and \<^verbatim>\<open>delete_client_from_all_inbounds\<close>.\<close>

definition delete_client :: "world \<Rightarrow> json \<Rightarrow> json \<Rightarrow> xui \<Rightarrow> (error + bool) \<times> xui" where
  "delete_client W uuid inbound_id s =
     (case make_request W ''POST''
             (''/panel/api/inbounds/'' @ py_str W inbound_id @ ''/delClient/'' @ py_str W uuid)
             (Some (JObj [])) True s of
        (Inl e, s1) \<Rightarrow> (Inl e, s1)
      | (Inr result, s1) \<Rightarrow>
          (ebind (dict_get result ''success'' JNull) (\<lambda>ok.
             if truthy ok then Inr True
             else ebind (dict_get result ''msg'' (JStr ''Unknown error'')) (\<lambda>msg.
                    Inl (XUIClientError (FailedToDeleteClient msg)))), s1))"

definition delete_client_from_all_inbounds ::
  "world \<Rightarrow> string \<Rightarrow> xui \<Rightarrow> (error + bool) \<times> xui" where
  "delete_client_from_all_inbounds W email s =
     (case find_client_in_all_inbounds W email s of
        (Inl e, s1) \<Rightarrow> (Inl e, s1)
      | (Inr client_info, s1) \<Rightarrow>
          if \<not> truthy client_info then (Inr False, s1)
          else
            (case ebind (dict_index client_info ''inbound_id'') (\<lambda>inbound_id.
                  ebind (dict_index client_info ''client'') (\<lambda>found.
                  ebind (dict_get found ''id'' JNull) (\<lambda>uuid. Inr (uuid, inbound_id)))) of
               Inl e \<Rightarrow> (Inl e, s1)
             | Inr (uuid, inbound_id) \<Rightarrow>
                 (case delete_client W uuid inbound_id s1 of
                    (Inl e, s2) \<Rightarrow> (Inr False, s2)
                  | (Inr ok, s2) \<Rightarrow> (Inr True, s2))))"

section \<open>Connection link builder\<close>

text \<open>
  The server address, computed by the same three lines in each of
  \<^verbatim>\<open>_build_vless_link\<close>, \<^verbatim>\<open>_build_vmess_link\<close> and \<^verbatim>\<open>_build_trojan_link\<close>.
\<close>

definition base_host :: "string \<Rightarrow> string" where
  "base_host url = before_colon (replace ''http://'' [] (replace ''https://'' [] url))"

definition server_address :: "xui \<Rightarrow> json \<Rightarrow> error + json" where
  "server_address s inbound =
     ebind (dict_get inbound ''listen'' (JStr ''0.0.0.0'')) (\<lambda>server.
       if server = JStr ''0.0.0.0'' \<or> server = JStr [] then Inr (JStr (base_host (base_url s)))
       else Inr server)"

text \<open>The security parameters of a vless link, added to \<open>params\<close>.\<close>

definition vless_security ::
  "json \<Rightarrow> json \<Rightarrow> (string \<times> json) list \<Rightarrow> error + (string \<times> json) list" where
  "vless_security stream_settings security params =
     (if security = JStr ''tls'' then
        ebind (dict_get stream_settings ''tlsSettings'' (JObj [])) (\<lambda>tls_settings.
        ebind (dict_get tls_settings ''serverName'' (JStr [])) (\<lambda>sni.
        ebind (dict_get tls_settings ''alpn'' (JArr [])) (\<lambda>alpn.
          let p1 = dict_set params ''security'' (JStr ''tls'');
              p2 = (if truthy sni then dict_set p1 ''sni'' sni else p1)
          in if truthy alpn then
               ebind (join_strs '','' alpn) (\<lambda>joined. Inr (dict_set p2 ''alpn'' (JStr joined)))
             else Inr p2)))
      else if security = JStr ''reality'' then
        ebind (dict_get stream_settings ''realitySettings'' (JObj [])) (\<lambda>reality_settings.
        ebind (dict_get reality_settings ''publicKey'' (JStr [])) (\<lambda>pbk.
        ebind (dict_get reality_settings ''fingerprint'' (JStr [])) (\<lambda>fp.
        ebind (dict_get reality_settings ''serverNames'' (JArr [])) (\<lambda>server_names.
          let p1 = dict_set params ''security'' (JStr ''reality'');
              p2 = (if truthy pbk then dict_set p1 ''pbk'' pbk else p1);
              p3 = (if truthy fp then dict_set p2 ''fp'' fp else p2)
          in
        ebind (if truthy server_names
               then ebind (first_item server_names) (\<lambda>x. Inr (dict_set p3 ''sni'' x))
               else Inr p3) (\<lambda>p4.
        ebind (dict_get reality_settings ''shortIds'' (JArr [])) (\<lambda>short_ids.
        ebind (if truthy short_ids
               then ebind (first_item short_ids) (\<lambda>x. Inr (dict_set p4 ''sid'' x))
               else Inr p4) (\<lambda>p5.
        ebind (dict_get reality_settings ''spiderX'' (JStr [])) (\<lambda>spider_x.
          if truthy spider_x
          then ebind (quote ''/'' spider_x) (\<lambda>q. Inr (dict_set p5 ''spx'' (JStr q)))
          else Inr p5))))))))
      else Inr params)"

text \<open>The transport parameters of a vless link, added to \<open>params\<close>.\<close>

definition vless_network ::
  "json \<Rightarrow> json \<Rightarrow> (string \<times> json) list \<Rightarrow> error + (string \<times> json) list" where
  "vless_network stream_settings network params =
     (if network = JStr ''ws'' then
        ebind (dict_get stream_settings ''wsSettings'' (JObj [])) (\<lambda>ws_settings.
        ebind (dict_get ws_settings ''path'' (JStr ''/'')) (\<lambda>path.
        ebind (quote ''/'' path) (\<lambda>q.
        ebind (dict_get ws_settings ''headers'' (JObj [])) (\<lambda>headers.
        ebind (dict_get headers ''Host'' (JStr [])) (\<lambda>host.
          let p1 = dict_set params ''path'' (JStr q)
          in Inr (if truthy host then dict_set p1 ''host'' host else p1))))))
      else if network = JStr ''grpc'' then
        ebind (dict_get stream_settings ''grpcSettings'' (JObj [])) (\<lambda>grpc_settings.
        ebind (dict_get grpc_settings ''serviceName'' (JStr [])) (\<lambda>service_name.
          Inr (if truthy service_name then dict_set params ''serviceName'' service_name
               else params)))
      else if network = JStr ''tcp'' then
        ebind (dict_get stream_settings ''tcpSettings'' (JObj [])) (\<lambda>tcp_settings.
        ebind (dict_get tcp_settings ''header'' (JObj [])) (\<lambda>header.
        ebind (dict_get header ''type'' (JStr ''none'')) (\<lambda>header_type.
          Inr (if header_type \<noteq> JStr ''none'' then dict_set params ''headerType'' header_type
               else params))))
      else Inr params)"

text \<open>The query parameters of a vless link, in the order the source inserts them.\<close>

definition vless_params :: "json \<Rightarrow> json \<Rightarrow> json \<Rightarrow> json \<Rightarrow> error + (string \<times> json) list" where
  "vless_params flow stream_settings network security =
     ebind (vless_security stream_settings security
              [(''type'', network), (''encryption'', JStr ''none'')]) (\<lambda>p1.
       vless_network stream_settings network
         (if truthy flow then dict_set p1 ''flow'' flow else p1))"

text \<open>\<^verbatim>\<open>XUIClient._build_vless_link\<close>.\<close>

definition build_vless_link ::
  "world \<Rightarrow> xui \<Rightarrow> json \<Rightarrow> json \<Rightarrow> json \<Rightarrow> json \<Rightarrow> json \<Rightarrow> json \<Rightarrow> error + string" where
  "build_vless_link W s target_client inbound stream_settings port network security =
     ebind (dict_get target_client ''id'' JNull) (\<lambda>uuid.
     ebind (dict_get target_client ''email'' (JStr [])) (\<lambda>email.
     ebind (dict_get target_client ''flow'' (JStr [])) (\<lambda>flow.
     ebind (server_address s inbound) (\<lambda>server.
     ebind (vless_params flow stream_settings network security) (\<lambda>params.
     ebind (quote ''/'' email) (\<lambda>fragment.
       Inr (''vless://'' @ py_str W uuid @ ''@'' @ py_str W server @ '':'' @ py_str W port
            @ ''?'' @ urlencode W ''/:,'' params @ ''#'' @ fragment)))))))"

text \<open>The dictionary that \<^verbatim>\<open>_build_vmess_link\<close> serialises.\<close>

definition vmess_config ::
  "world \<Rightarrow> json \<Rightarrow> json \<Rightarrow> json \<Rightarrow> json \<Rightarrow> json \<Rightarrow> json \<Rightarrow> json \<Rightarrow> error + (string \<times> json) list" where
  "vmess_config W uuid email server stream_settings port network security =
     (let cfg = [(''v'', JStr ''2''), (''ps'', email), (''add'', server),
                 (''port'', JStr (py_str W port)), (''id'', uuid), (''aid'', JStr ''0''),
                 (''net'', network), (''type'', JStr ''none''), (''host'', JStr []),
                 (''path'', JStr []),
                 (''tls'', if security = JStr ''tls'' then security else JStr [])]
      in if network = JStr ''ws'' then
           ebind (dict_get stream_settings ''wsSettings'' (JObj [])) (\<lambda>ws_settings.
           ebind (dict_get ws_settings ''path'' (JStr ''/'')) (\<lambda>path.
           ebind (dict_get ws_settings ''headers'' (JObj [])) (\<lambda>headers.
           ebind (dict_get headers ''Host'' (JStr [])) (\<lambda>host.
             Inr (dict_set (dict_set cfg ''path'' path) ''host'' host)))))
         else Inr cfg)"

text \<open>\<^verbatim>\<open>XUIClient._build_vmess_link\<close>.\<close>

definition build_vmess_link ::
  "world \<Rightarrow> xui \<Rightarrow> json \<Rightarrow> json \<Rightarrow> json \<Rightarrow> json \<Rightarrow> json \<Rightarrow> json \<Rightarrow> error + string" where
  "build_vmess_link W s target_client inbound stream_settings port network security =
     ebind (dict_get target_client ''id'' JNull) (\<lambda>uuid.
     ebind (dict_get target_client ''email'' (JStr [])) (\<lambda>email.
     ebind (server_address s inbound) (\<lambda>server.
     ebind (vmess_config W uuid email server stream_settings port network security) (\<lambda>cfg.
       Inr (''vmess://'' @ b64encode (json_dumps W (JObj cfg)))))))"

text \<open>\<^verbatim>\<open>XUIClient._build_trojan_link\<close>.\<close>

definition build_trojan_link ::
  "world \<Rightarrow> xui \<Rightarrow> json \<Rightarrow> json \<Rightarrow> json \<Rightarrow> json \<Rightarrow> json \<Rightarrow> json \<Rightarrow> error + string" where
  "build_trojan_link W s target_client inbound stream_settings port network security =
     ebind (dict_get target_client ''password'' (JStr [])) (\<lambda>pass.
     ebind (dict_get target_client ''email'' (JStr [])) (\<lambda>email.
     ebind (server_address s inbound) (\<lambda>server.
     ebind (if security = JStr ''tls'' then
              ebind (dict_get stream_settings ''tlsSettings'' (JObj [])) (\<lambda>tls_settings.
              ebind (dict_get tls_settings ''serverName'' (JStr [])) (\<lambda>sni.
                Inr (if truthy sni
                     then dict_set [(''type'', network), (''security'', security)] ''sni'' sni
                     else [(''type'', network), (''security'', security)])))
            else Inr [(''type'', network), (''security'', security)]) (\<lambda>params.
     ebind (quote ''/'' email) (\<lambda>fragment.
       Inr (''trojan://'' @ py_str W pass @ ''@'' @ py_str W server @ '':'' @ py_str W port
            @ ''?'' @ urlencode W [] params @ ''#'' @ fragment))))))"

text \<open>
  The body of the \<^verbatim>\<open>try\<close> of \<^verbatim>\<open>XUIClient.get_client_link\<close>, from the answer of
  \<^verbatim>\<open>get_inbound\<close> on: \<open>Inr None\<close> is \<^verbatim>\<open>return None\<close>, \<open>Inl\<close> an exception.
\<close>

definition link_of_inbound :: "world \<Rightarrow> xui \<Rightarrow> string \<Rightarrow> json \<Rightarrow> error + string option" where
  "link_of_inbound W s email inbound_data =
     ebind (dict_get inbound_data ''success'' JNull) (\<lambda>ok.
       if \<not> truthy ok then Inr None
       else
     ebind (dict_get inbound_data ''obj'' JNull) (\<lambda>obj.
       if \<not> truthy obj then Inr None
       else
     ebind (dict_get obj ''settings'' (JStr ''{}'')) (\<lambda>settings_str.
     ebind (loads W settings_str) (\<lambda>settings_dict.
     ebind (dict_get settings_dict ''clients'' (JArr [])) (\<lambda>clients.
     ebind (py_iter clients) (\<lambda>cs.
     ebind (find_in_clients email cs) (\<lambda>target.
       case target of
         None \<Rightarrow> Inr None
       | Some target_client \<Rightarrow>
           if \<not> truthy target_client then Inr None
           else
     ebind (dict_get obj ''protocol'' (JStr [])) (\<lambda>tag.
     ebind (py_lower tag) (\<lambda>protocol.
     ebind (dict_get obj ''port'' JNull) (\<lambda>port.
     ebind (dict_get obj ''streamSettings'' (JStr ''{}'')) (\<lambda>stream_settings_str.
     ebind (case stream_settings_str of
              JStr t \<Rightarrow> loads W stream_settings_str
            | _ \<Rightarrow> Inr stream_settings_str) (\<lambda>stream_settings.
     ebind (dict_get stream_settings ''network'' (JStr ''tcp'')) (\<lambda>network.
     ebind (dict_get stream_settings ''security'' (JStr ''none'')) (\<lambda>security.
       if protocol = ''vless'' then
         ebind (build_vless_link W s target_client obj stream_settings port network security)
           (\<lambda>link. Inr (Some link))
       else if protocol = ''vmess'' then
         ebind (build_vmess_link W s target_client obj stream_settings port network security)
           (\<lambda>link. Inr (Some link))
       else if protocol = ''trojan'' then
         ebind (build_trojan_link W s target_client obj stream_settings port network security)
           (\<lambda>link. Inr (Some link))
       else Inr None))))))))))))))"

text \<open>\<^verbatim>\<open>XUIClient.get_client_link\<close>: \<^verbatim>\<open>except Exception\<close> turns every exception of
  the body into \<^verbatim>\<open>None\<close>.\<close>

definition get_client_link :: "world \<Rightarrow> int \<Rightarrow> string \<Rightarrow> xui \<Rightarrow> string option \<times> xui" where
  "get_client_link W inbound_id email s =
     (case get_inbound W inbound_id s of
        (Inl e, s1) \<Rightarrow> (None, s1)
      | (Inr inbound_data, s1) \<Rightarrow>
          (case link_of_inbound W s1 email inbound_data of
             Inl e \<Rightarrow> (None, s1)
           | Inr link \<Rightarrow> (link, s1)))"

section \<open>Observing the requests of a call\<close>

text \<open>
  \<^verbatim>\<open>login\<close> is the only operation that posts a form, so a form body marks a login
  exchange in the history; every other request is an API call. \<open>issued s s'\<close> are the
  requests sent between the state \<open>s\<close> and a later state \<open>s'\<close>.
\<close>

definition is_login :: "request \<Rightarrow> bool" where
  "is_login r = (case req_body r of FormBody f \<Rightarrow> True | _ \<Rightarrow> False)"

definition logins :: "request list \<Rightarrow> nat" where
  "logins rs = length (filter is_login rs)"

definition calls :: "request list \<Rightarrow> nat" where
  "calls rs = length (filter (\<lambda>r. \<not> is_login r) rs)"

definition issued :: "xui \<Rightarrow> xui \<Rightarrow> request list" where
  "issued s s' = drop (length (sent s)) (sent s')"

definition login_request :: "xui \<Rightarrow> request" where
  "login_request s =
     \<lparr>req_method = POST, req_url = base_url s @ ''/login'', req_cookie = None,
      req_body = FormBody [(''username'', username s), (''password'', password s)]\<rparr>"

section \<open>Scenarios\<close>

text \<open>
  A panel that answers the n-th request with the n-th reply of a script (and refuses the
  connection afterwards), \<^verbatim>\<open>json.loads\<close> and \<^verbatim>\<open>json.dumps\<close> given by a finite table of
  texts and their values (no scenario decodes a JSON text outside its table, which is
  rejected as \<^verbatim>\<open>JSONDecodeError\<close>, or prints a list or dictionary with \<^verbatim>\<open>repr\<close>), and a
  client whose HTTP client is open.
\<close>

definition scripted :: "reply list \<Rightarrow> request list \<Rightarrow> reply" where
  "scripted script rs =
     (if length rs - 1 < length script then script ! (length rs - 1) else Inl ConnectError)"

definition reply_status :: "nat \<Rightarrow> reply" where
  "reply_status n = Inr \<lparr>status_code = n, cookies = [], body = []\<rparr>"

definition reply_login_ok :: reply where
  "reply_login_ok = Inr \<lparr>status_code = 200, cookies = [(''session'', ''abc'')], body = []\<rparr>"

definition reply_body :: "string \<Rightarrow> reply" where
  "reply_body b = Inr \<lparr>status_code = 200, cookies = [], body = b\<rparr>"

definition scenario :: "reply list \<Rightarrow> (string \<times> json) list \<Rightarrow> world" where
  "scenario script table =
     \<lparr>json_loads = (\<lambda>t. case map_of table t of Some v \<Rightarrow> Inr v | None \<Rightarrow> Inl JSONDecodeError),
      json_dumps = (\<lambda>j. case find (\<lambda>kv. snd kv = j) table of Some kv \<Rightarrow> fst kv | None \<Rightarrow> []),
      py_repr = (\<lambda>j. []),
      panel = scripted script\<rparr>"

definition opened :: xui where
  "opened = (init ''https://panel.example:2053/'' ''admin'' ''secret'')
              \<lparr>session_cookie := Some ''session=old'', client := True\<rparr>"

text \<open>The first request of a listing call issued by \<open>opened\<close>.\<close>

definition list_request :: request where
  "list_request = \<lparr>req_method = GET, req_url = ''https://panel.example:2053/panel/api/inbounds/list'',
      req_cookie = Some ''session=old'', req_body = NoBody\<rparr>"


section \<open>What an error message carries\<close>

text \<open>The values that the f-string of each message interpolates.\<close>

definition interpolated :: "xui_msg \<Rightarrow> json list" where
  "interpolated m =
     (case m of
        ClientNotInitialized \<Rightarrow> []
      | UnsupportedMethod method \<Rightarrow> [JStr method]
      | ApiRequestFailed status \<Rightarrow> [JInt (int status)]
      | NetworkFailure \<Rightarrow> []
      | InvalidJSONResponse \<Rightarrow> []
      | ConnectionFailed url \<Rightarrow> [JStr url]
      | ConnectionTimeout url \<Rightarrow> [JStr url]
      | LoginFailedRequest \<Rightarrow> []
      | LoginFailedNoCookie \<Rightarrow> []
      | LoginFailedStatus status \<Rightarrow> [JInt (int status)]
      | ClientAlreadyExists inbound_remark \<Rightarrow> [inbound_remark]
      | DuplicateEmail duplicate_email \<Rightarrow> [JStr duplicate_email]
      | FailedToCreateClient error_msg \<Rightarrow> [error_msg]
      | FailedToDeleteClient error_msg \<Rightarrow> [error_msg])"

section \<open>Reading envelopes\<close>

text \<open>
  The value that \<^verbatim>\<open>d.get(k, default)\<close> yields, for use in statements; \<open>JNull\<close> when
  \<open>d\<close> is not a dictionary (where the source raises).
\<close>

definition field :: "json \<Rightarrow> string \<Rightarrow> json \<Rightarrow> json" where
  "field d k dflt = (case dict_get d k dflt of Inr v \<Rightarrow> v | Inl e \<Rightarrow> JNull)"

section \<open>Well-formed inbound listings\<close>

text \<open>
  An inbound of a listing is well formed when it is a dictionary whose settings (the
  text \<^verbatim>\<open>{}\<close> when the key is absent) decode to a dictionary whose \<^verbatim>\<open>clients\<close>
  (the empty list when absent) is a list of dictionaries; \<open>decoded_clients\<close> is then
  that list. It is malformed when its settings are a text that \<^verbatim>\<open>json.loads\<close> rejects
  with \<^verbatim>\<open>JSONDecodeError\<close>.
\<close>

definition decoded_clients :: "world \<Rightarrow> json \<Rightarrow> json list option" where
  "decoded_clients W inbound =
     (case inbound of
        JObj kvs \<Rightarrow>
          (case (case map_of kvs ''settings'' of Some v \<Rightarrow> v | None \<Rightarrow> JStr ''{}'') of
             JStr t \<Rightarrow>
               (case json_loads W t of
                  Inr (JObj d) \<Rightarrow>
                    (case (case map_of d ''clients'' of Some v \<Rightarrow> v | None \<Rightarrow> JArr []) of
                       JArr cs \<Rightarrow>
                         (if list_all (\<lambda>c. case c of JObj _ \<Rightarrow> True | _ \<Rightarrow> False) cs
                          then Some cs else None)
                     | _ \<Rightarrow> None)
                | _ \<Rightarrow> None)
           | _ \<Rightarrow> None)
      | _ \<Rightarrow> None)"

definition well_formed_inbound :: "world \<Rightarrow> json \<Rightarrow> bool" where
  "well_formed_inbound W inbound = (decoded_clients W inbound \<noteq> None)"

definition malformed :: "world \<Rightarrow> json \<Rightarrow> bool" where
  "malformed W inbound =
     (case inbound of
        JObj kvs \<Rightarrow>
          (case (case map_of kvs ''settings'' of Some v \<Rightarrow> v | None \<Rightarrow> JStr ''{}'') of
             JStr t \<Rightarrow> json_loads W t = Inl JSONDecodeError
           | _ \<Rightarrow> False)
      | _ \<Rightarrow> False)"

text \<open>A client carries the label when its \<^verbatim>\<open>email\<close> is that text.\<close>

definition has_label :: "string \<Rightarrow> json \<Rightarrow> bool" where
  "has_label email c = (case c of JObj kvs \<Rightarrow> map_of kvs ''email'' = Some (JStr email) | _ \<Rightarrow> False)"

definition holds_label :: "world \<Rightarrow> string \<Rightarrow> json \<Rightarrow> bool" where
  "holds_label W email inbound =
     (case decoded_clients W inbound of
        None \<Rightarrow> False
      | Some cs \<Rightarrow> list_ex (has_label email) cs)"

text \<open>
  The match reported for an inbound that holds the label: the inbound's identifier, its
  remark (\<^verbatim>\<open>Unknown\<close> when it has none) and the first of its clients with the label.
\<close>

definition match_in :: "world \<Rightarrow> string \<Rightarrow> json \<Rightarrow> json" where
  "match_in W email inbound =
     (case inbound of
        JObj kvs \<Rightarrow>
          (case decoded_clients W inbound of
             Some cs \<Rightarrow>
               (case find (has_label email) cs of
                  Some c \<Rightarrow>
                    JObj [(''inbound_id'', case map_of kvs ''id'' of Some v \<Rightarrow> v | None \<Rightarrow> JNull),
                          (''inbound_remark'',
                             case map_of kvs ''remark'' of Some v \<Rightarrow> v | None \<Rightarrow> JStr ''Unknown''),
                          (''client'', c)]
                | None \<Rightarrow> JNull)
           | None \<Rightarrow> JNull)
      | _ \<Rightarrow> JNull)"

section \<open>Panel answers used in the examples\<close>

text \<open>
  JSON texts as the panel writes them, with the values they decode to. An inbound entry
  embeds its settings as an escaped text.
\<close>

definition escaped :: "string \<Rightarrow> string" where
  "escaped t = concat (map (\<lambda>c. if c = CHR 0x22 \<or> c = CHR 0x5C then [CHR 0x5C, c] else [c]) t)"

definition settings_bob :: string where
  "settings_bob = ''{\"clients\": [{\"id\": \"u-bob\", \"email\": \"bob\"}]}''"

definition settings_alice :: string where
  "settings_alice =
     ''{\"clients\": [{\"id\": \"u-carol\", \"email\": \"carol\"}, {\"id\": \"u-alice\", \"email\": \"alice\"}]}''"

definition settings_broken :: string where
  "settings_broken = ''{\"clients\": [''"

definition client_entry :: "string \<Rightarrow> string \<Rightarrow> json" where
  "client_entry uuid email = JObj [(''id'', JStr uuid), (''email'', JStr email)]"

definition inbound_text :: "int \<Rightarrow> string \<Rightarrow> string \<Rightarrow> string" where
  "inbound_text n remark settings =
     ''{\"id\": '' @ show_int n @ '', \"remark\": \"'' @ remark @ ''\", \"settings\": \"''
       @ escaped settings @ ''\"}''"

definition inbound_entry :: "int \<Rightarrow> string \<Rightarrow> string \<Rightarrow> json" where
  "inbound_entry n remark settings =
     JObj [(''id'', JInt n), (''remark'', JStr remark), (''settings'', JStr settings)]"

definition listing_text :: "string list \<Rightarrow> string" where
  "listing_text entries = ''{\"success\": true, \"obj\": ['' @ str_join '', '' entries @ '']}''"

definition listing_value :: "json list \<Rightarrow> json" where
  "listing_value entries = JObj [(''success'', JBool True), (''obj'', JArr entries)]"

definition settings_table :: "(string \<times> json) list" where
  "settings_table =
     [(settings_bob, JObj [(''clients'', JArr [client_entry ''u-bob'' ''bob''])]),
      (settings_alice,
         JObj [(''clients'', JArr [client_entry ''u-carol'' ''carol'',
                                   client_entry ''u-alice'' ''alice''])])]"

definition failure_text :: string where
  "failure_text = ''{\"success\": false, \"msg\": \"Something went wrong\"}''"

definition failure_value :: json where
  "failure_value = JObj [(''success'', JBool False), (''msg'', JStr ''Something went wrong'')]"

text \<open>
  A panel that answers the first request with a listing of the given inbounds (identifier,
  remark, settings text), and the decoder for that listing and the settings above.
\<close>

definition listing_world :: "(int \<times> string \<times> string) list \<Rightarrow> world" where
  "listing_world es =
     scenario [reply_body (listing_text (map (\<lambda>(n, remark, t). inbound_text n remark t) es))]
       ((listing_text (map (\<lambda>(n, remark, t). inbound_text n remark t) es),
         listing_value (map (\<lambda>(n, remark, t). inbound_entry n remark t) es)) # settings_table)"



definition duplicate_text :: string where
  "duplicate_text =
     ''{\"success\": false, \"msg\": \"Something went wrong! Failed: Duplicate email: alice\"}''"

definition duplicate_value :: json where
  "duplicate_value =
     JObj [(''success'', JBool False),
           (''msg'', JStr ''Something went wrong! Failed: Duplicate email: alice'')]"

text \<open>
  A panel that lists one inbound holding \<^verbatim>\<open>bob\<close> and then reports a duplicate of
  \<^verbatim>\<open>alice\<close> on the create request.
\<close>

definition new_alice_text :: string where
  "new_alice_text =
     ''{\"clients\": [{\"id\": \"u-new\", \"email\": \"alice\", \"enable\": true, \"flow\": \"\", ''
     @ ''\"limitIp\": 0, \"totalGB\": 0, \"expiryTime\": 0, \"tgId\": \"\", \"subId\": \"\", \"reset\": 0}]}''"

definition duplicate_world :: world where
  "duplicate_world =
     scenario [reply_body (listing_text [inbound_text 1 ''main'' settings_bob]),
               reply_body duplicate_text]
       ((listing_text [inbound_text 1 ''main'' settings_bob],
         listing_value [inbound_entry 1 ''main'' settings_bob])
        # (duplicate_text, duplicate_value)
        # (new_alice_text, new_client_settings ''alice'' ''u-new'' True) # settings_table)"

definition traffic_text :: string where
  "traffic_text = ''{\"success\": true, \"obj\": {\"up\": 10, \"down\": 32}}''"

definition traffic_value :: json where
  "traffic_value =
     JObj [(''success'', JBool True), (''obj'', JObj [(''up'', JInt 10), (''down'', JInt 32)])]"

definition no_traffic_text :: string where
  "no_traffic_text = ''{\"success\": true, \"msg\": \"\", \"obj\": null}''"

definition no_traffic_value :: json where
  "no_traffic_value = JObj [(''success'', JBool True), (''msg'', JStr []), (''obj'', JNull)]"

section \<open>What an inbound offers to the link builder\<close>

text \<open>
  The clients that the decoded settings of an inbound object list (none when the settings
  do not decode to a dictionary with iterable \<^verbatim>\<open>clients\<close>), and its protocol tag in lower
  case (\<open>None\<close> when the tag is not a text).
\<close>

definition listed_clients :: "world \<Rightarrow> json \<Rightarrow> json list" where
  "listed_clients W obj =
     (case ebind (dict_get obj ''settings'' (JStr ''{}'')) (\<lambda>settings_str.
           ebind (loads W settings_str) (\<lambda>settings_dict.
           ebind (dict_get settings_dict ''clients'' (JArr [])) py_iter)) of
        Inr cs \<Rightarrow> cs
      | Inl e \<Rightarrow> [])"

definition protocol_of :: "json \<Rightarrow> string option" where
  "protocol_of obj =
     (case ebind (dict_get obj ''protocol'' (JStr [])) py_lower of
        Inr p \<Rightarrow> Some p
      | Inl e \<Rightarrow> None)"

text \<open>The answer for an inbound of a protocol the builder does not know.\<close>

definition stream_text :: string where
  "stream_text = ''{\"network\": \"tcp\", \"security\": \"none\"}''"

definition shadowsocks_text :: string where
  "shadowsocks_text =
     ''{\"success\": true, \"obj\": {\"id\": 7, \"protocol\": \"shadowsocks\", \"port\": 8388, ''
     @ ''\"settings\": \"'' @ escaped settings_alice @ ''\", \"streamSettings\": \"''
     @ escaped stream_text @ ''\"}}''"

definition shadowsocks_value :: json where
  "shadowsocks_value =
     JObj [(''success'', JBool True),
           (''obj'', JObj [(''id'', JInt 7), (''protocol'', JStr ''shadowsocks''),
                          (''port'', JInt 8388), (''settings'', JStr settings_alice),
                          (''streamSettings'', JStr stream_text)])]"

section \<open>Inbounds used in the link examples\<close>


text \<open>An inbound that listens on every address.\<close>

definition wildcard_inbound :: json where
  "wildcard_inbound = JObj [(''id'', JInt 1), (''listen'', JStr []), (''port'', JInt 443)]"

definition reality_settings :: "(string \<times> json) list" where
  "reality_settings =
     [(''publicKey'', JStr ''SbVKOEMjK0sIlbwg4akyBg5mL5KZwwB-ed4eEE7YnRc''),
      (''fingerprint'', JStr ''chrome''),
      (''serverNames'', JArr [JStr ''example.com'']),
      (''shortIds'', JArr [JStr ''ab'']),
      (''spiderX'', JStr ''/'')]"






section \<open>The request executor re-authenticates at most once\<close>

declare make_request.simps [simp del]

declare strip_left.simps [simp del]

lemma login_sent:
  "login W s = (r, s') \<Longrightarrow> sent s' = sent s @ [login_request s] \<and> base_url s' = base_url s \<and> client s' = client s
     \<and> username s' = username s \<and> password s' = password s"
  by (auto simp: login_def send_def login_request_def Let_def split: sum.splits net_error.splits if_splits)

lemma build_request_not_login:
  "build_request m u d h = Some req \<Longrightarrow> \<not> is_login req"
  by (auto simp: build_request_def is_login_def split: if_splits)

lemma build_request_cookie:
  "build_request m u d h = Some req \<Longrightarrow> build_request m u d h' = Some (req\<lparr>req_cookie := h'\<rparr>)"
  by (auto simp: build_request_def split: if_splits)

lemma make_request_no_retry:
  assumes "make_request W m e d False s = (res, s')"
  shows "sent s' = sent s \<or>
         (\<exists>req. build_request m (base_url s @ e) d (cookie_header s) = Some req \<and> client s \<and> sent s' = sent s @ [req])"
  using assms
  by (subst (asm) make_request.simps)
     (auto simp: send_def split: if_splits option.splits sum.splits prod.splits)

lemma is_login_login_request: "is_login (login_request s)"
  by (simp add: is_login_def login_request_def)

lemma issued_append: "sent s' = sent s @ xs \<Longrightarrow> issued s s' = xs"
  by (simp add: issued_def)

lemma make_request_first_401:
  assumes "client s"
    and "build_request method (base_url s @ endpoint) data (cookie_header s) = Some req"
    and "panel W (sent s @ [req]) = Inr resp" and "status_code resp = 401"
  shows "make_request W method endpoint data True s =
     (case login W (s\<lparr>sent := sent s @ [req]\<rparr>) of
        (Inl e, s2) \<Rightarrow> (Inl e, s2)
      | (Inr ok, s2) \<Rightarrow> make_request W method endpoint data False s2)"
  using assms by (subst make_request.simps) (simp add: send_def)

lemma make_request_retried:
  assumes "client s"
    and "build_request method (base_url s @ endpoint) data (cookie_header s) = Some req"
    and "make_request W method endpoint data False s = (res, s')"
  shows "sent s' = sent s @ [req] \<and>
     (\<forall>resp. panel W (sent s') = Inr resp \<and> status_code resp = 401 \<longrightarrow>
        res = Inl (XUIClientError (ApiRequestFailed 401)))"
  using assms
  by (subst (asm) make_request.simps)
     (auto simp: send_def split: if_splits option.splits sum.splits prod.splits)

lemma make_request_bound:
  assumes "make_request W method endpoint data retry s = (res, s')"
  shows "sent s' = sent s @ issued s s' \<and> logins (issued s s') \<le> 1 \<and> calls (issued s s') \<le> 2"
proof (cases "client s")
  case False
  with assms have "s' = s" by (subst (asm) make_request.simps) simp
  then show ?thesis by (simp add: issued_def logins_def calls_def)
next
  case True
  show ?thesis
  proof (cases "build_request method (base_url s @ endpoint) data (cookie_header s)")
    case None
    with True assms have "s' = s" by (subst (asm) make_request.simps) simp
    then show ?thesis by (simp add: issued_def logins_def calls_def)
  next
    case (Some req)
    note nl = build_request_not_login [OF Some]
    let ?s1 = "s\<lparr>sent := sent s @ [req]\<rparr>"
    show ?thesis
    proof (cases "\<exists>resp. panel W (sent s @ [req]) = Inr resp \<and> status_code resp = 401 \<and> retry")
      case False
      with True Some assms have "sent s' = sent s @ [req]"
        by (subst (asm) make_request.simps)
           (auto simp: send_def split: if_splits option.splits sum.splits)
      with nl show ?thesis by (simp add: issued_def logins_def calls_def)
    next
      case True401: True
      then obtain resp where r: "panel W (sent s @ [req]) = Inr resp" "status_code resp = 401" "retry"
        by blast
      obtain lr s2 where l: "login W ?s1 = (lr, s2)" by (cases "login W ?s1")
      from login_sent [OF l] have s2: "sent s2 = sent s @ [req, login_request ?s1]"
        "base_url s2 = base_url s" "client s2 = client s" by simp_all
      show ?thesis
      proof (cases lr)
        case (Inl e)
        with assms True Some r l have "s' = s2"
          by (simp add: make_request_first_401)
        with s2 nl show ?thesis
          by (simp add: issued_def logins_def calls_def is_login_login_request)
      next
        case (Inr ok)
        with assms True Some r l have run2: "make_request W method endpoint data False s2 = (res, s')"
          by (simp add: make_request_first_401)
        from make_request_no_retry [OF run2] s2
        have "sent s' = sent s @ [req, login_request ?s1] \<or>
              (\<exists>req2. build_request method (base_url s @ endpoint) data (cookie_header s2) = Some req2 \<and>
                 sent s' = sent s @ [req, login_request ?s1, req2])"
          by auto
        then show ?thesis
          using nl by (auto simp: issued_def logins_def calls_def is_login_login_request dest: build_request_not_login)
      qed
    qed
  qed
qed

lemma login_request_sent [simp]: "login_request (s\<lparr>sent := xs\<rparr>) = login_request s"
  by (simp add: login_request_def)

text \<open>
  Claim C1, as amended. Every call through the request executor issues at most one login
  and at most two API requests. When the first answer has status 401, exactly one
  re-login is attempted. If the re-login fails, its error is the result of the call and
  no retried call is made. If it succeeds, exactly one retried call follows, carrying the
  fresh session cookie, and an answer 401 to the retried call is raised as the error
  \<open>ApiRequestFailed 401\<close> without another login.
\<close>

theorem make_request_reauth_once:
  assumes run: "make_request W method endpoint data True s = (res, s')"
  shows "logins (issued s s') \<le> 1 \<and> calls (issued s s') \<le> 2 \<and>
    (\<forall>req resp lr s2.
        client s \<and> build_request method (base_url s @ endpoint) data (cookie_header s) = Some req \<and>
        panel W (sent s @ [req]) = Inr resp \<and> status_code resp = 401 \<and>
        login W (s\<lparr>sent := sent s @ [req]\<rparr>) = (lr, s2) \<longrightarrow>
        (case lr of
           Inl e \<Rightarrow> res = Inl e \<and> issued s s' = [req, login_request s]
         | Inr ok \<Rightarrow>
             issued s s' = [req, login_request s, req\<lparr>req_cookie := cookie_header s2\<rparr>] \<and>
             (\<forall>resp2. panel W (sent s') = Inr resp2 \<and> status_code resp2 = 401 \<longrightarrow>
                res = Inl (XUIClientError (ApiRequestFailed 401)))))"
proof (intro conjI allI impI)
  show "logins (issued s s') \<le> 1" "calls (issued s s') \<le> 2"
    using make_request_bound [OF run] by blast+
next
  fix req resp lr s2
  assume h: "client s \<and> build_request method (base_url s @ endpoint) data (cookie_header s) = Some req \<and>
        panel W (sent s @ [req]) = Inr resp \<and> status_code resp = 401 \<and>
        login W (s\<lparr>sent := sent s @ [req]\<rparr>) = (lr, s2)"
  let ?s1 = "s\<lparr>sent := sent s @ [req]\<rparr>"
  from h have cl: "client s"
    and br: "build_request method (base_url s @ endpoint) data (cookie_header s) = Some req"
    and pn: "panel W (sent s @ [req]) = Inr resp" and st: "status_code resp = 401"
    and l: "login W ?s1 = (lr, s2)"
    by blast+
  from login_sent [OF l] have s2: "sent s2 = sent s @ [req, login_request s]"
    "base_url s2 = base_url s" "client s2 = client s" by simp_all
  have eq: "(res, s') = (case (lr, s2) of
        (Inl e, s2) \<Rightarrow> (Inl e, s2)
      | (Inr ok, s2) \<Rightarrow> make_request W method endpoint data False s2)"
    unfolding run [symmetric] l [symmetric] by (rule make_request_first_401 [OF cl br pn st])
  show "case lr of
           Inl e \<Rightarrow> res = Inl e \<and> issued s s' = [req, login_request s]
         | Inr ok \<Rightarrow>
             issued s s' = [req, login_request s, req\<lparr>req_cookie := cookie_header s2\<rparr>] \<and>
             (\<forall>resp2. panel W (sent s') = Inr resp2 \<and> status_code resp2 = 401 \<longrightarrow>
                res = Inl (XUIClientError (ApiRequestFailed 401)))"
  proof (cases lr)
    case (Inl e)
    with eq s2 show ?thesis by (simp add: issued_def)
  next
    case (Inr ok)
    with eq have run2: "make_request W method endpoint data False s2 = (res, s')" by simp
    have b2: "build_request method (base_url s2 @ endpoint) data (cookie_header s2)
        = Some (req\<lparr>req_cookie := cookie_header s2\<rparr>)"
      unfolding s2 by (rule build_request_cookie [OF br])
    from cl s2 have c2: "client s2" by simp
    from make_request_retried [OF c2 b2 run2] have "sent s' = sent s2 @ [req\<lparr>req_cookie := cookie_header s2\<rparr>]"
      and r401: "\<And>resp2. panel W (sent s') = Inr resp2 \<Longrightarrow> status_code resp2 = 401 \<Longrightarrow> res = Inl (XUIClientError (ApiRequestFailed 401))"
      by blast+
    then have "issued s s' = [req, login_request s, req\<lparr>req_cookie := cookie_header s2\<rparr>]"
      using s2 by (simp add: issued_def)
    with r401 Inr show ?thesis by auto
  qed
qed

lemma opened_simps:
  "base_url opened = ''https://panel.example:2053''" "client opened" "sent opened = []"
  "session_cookie opened = Some ''session=old''" "username opened = ''admin''" "password opened = ''secret''"
  by (simp_all add: opened_def init_def rstrip_slash_def)

lemma upper_GET: "upper ''GET'' = ''GET''" "upper ''POST'' = ''POST''"
  by (simp_all add: upper_def upper_char_def)


lemmas run_simps = make_request.simps build_request_def upper_GET cookie_header_def opened_simps send_def
     scenario_def scripted_def reply_status_def reply_login_ok_def reply_body_def login_def login_request_def Let_def

text \<open>
  A run of the theorem: the panel answers 401, accepts the login, and answers 401 again.
\<close>

theorem make_request_reauth_once_witness:
  "client opened \<and>
   build_request ''GET'' (base_url opened @ ''/panel/api/inbounds/list'') None (cookie_header opened)
     = Some list_request \<and>
   panel (scenario [reply_status 401, reply_login_ok, reply_status 401] []) (sent opened @ [list_request])
     = reply_status 401 \<and>
   fst (login (scenario [reply_status 401, reply_login_ok, reply_status 401] [])
          (opened\<lparr>sent := sent opened @ [list_request]\<rparr>)) = Inr True \<and>
   fst (make_request (scenario [reply_status 401, reply_login_ok, reply_status 401] [])
          ''GET'' ''/panel/api/inbounds/list'' None True opened)
     = Inl (XUIClientError (ApiRequestFailed 401)) \<and>
   issued opened (snd (make_request (scenario [reply_status 401, reply_login_ok, reply_status 401] [])
          ''GET'' ''/panel/api/inbounds/list'' None True opened))
     = [list_request, login_request opened, list_request\<lparr>req_cookie := Some ''session=abc''\<rparr>]"
proof -
  let ?W = "scenario [reply_status 401, reply_login_ok, reply_status 401] []"
  let ?s2 = "opened\<lparr>sent := [list_request, login_request opened], session_cookie := Some ''session=abc''\<rparr>"
  let ?s3 = "opened\<lparr>sent := [list_request, login_request opened,
               list_request\<lparr>req_cookie := Some ''session=abc''\<rparr>], session_cookie := Some ''session=abc''\<rparr>"
  have run: "make_request ?W ''GET'' ''/panel/api/inbounds/list'' None True opened
      = (Inl (XUIClientError (ApiRequestFailed 401)), ?s3)"
    by (simp add: run_simps list_request_def)
  have c: "client opened" by (simp add: opened_simps)
  have b: "build_request ''GET'' (base_url opened @ ''/panel/api/inbounds/list'') None (cookie_header opened)
     = Some list_request"
    by (simp add: run_simps list_request_def)
  have p: "panel ?W (sent opened @ [list_request]) = Inr \<lparr>status_code = 401, cookies = [], body = []\<rparr>"
    by (simp add: run_simps)
  have l: "login ?W (opened\<lparr>sent := sent opened @ [list_request]\<rparr>) = (Inr True, ?s2)"
    by (simp add: run_simps)
  from make_request_reauth_once [OF run, THEN conjunct2, THEN conjunct2, rule_format,
      of list_request "\<lparr>status_code = 401, cookies = [], body = []\<rparr>" "Inr True" ?s2]
    c b p l
  have "issued opened ?s3 = [list_request, login_request opened,
      list_request\<lparr>req_cookie := cookie_header ?s2\<rparr>]"
    by simp
  then have i: "issued opened ?s3 = [list_request, login_request opened,
      list_request\<lparr>req_cookie := Some ''session=abc''\<rparr>]"
    by (simp add: cookie_header_def)
  show ?thesis
    unfolding run l using c b p i by (simp add: reply_status_def)
qed

text \<open>
  Claim C1 as stated fails where the re-login itself fails: the first answer is 401, the
  login is answered with status 500, and the call ends with the login's error after one
  API request and one login. No retried call is made.
\<close>

theorem make_request_failed_relogin_counterexample:
  "panel (scenario [reply_status 401, reply_status 500] []) (sent opened @ [list_request])
     = reply_status 401 \<and>
   fst (make_request (scenario [reply_status 401, reply_status 500] [])
          ''GET'' ''/panel/api/inbounds/list'' None True opened)
     = Inl (XUIClientError (LoginFailedStatus 500)) \<and>
   issued opened (snd (make_request (scenario [reply_status 401, reply_status 500] [])
          ''GET'' ''/panel/api/inbounds/list'' None True opened))
     = [list_request, login_request opened] \<and>
   calls (issued opened (snd (make_request (scenario [reply_status 401, reply_status 500] [])
          ''GET'' ''/panel/api/inbounds/list'' None True opened))) = 1"
proof -
  let ?W = "scenario [reply_status 401, reply_status 500] []"
  have run: "make_request ?W ''GET'' ''/panel/api/inbounds/list'' None True opened
      = (Inl (XUIClientError (LoginFailedStatus 500)),
         opened\<lparr>sent := [list_request, login_request opened]\<rparr>)"
    by (simp add: run_simps list_request_def)
  show ?thesis
    unfolding run
    by (simp add: run_simps issued_def calls_def is_login_def list_request_def)
qed


section \<open>The scan over all inbounds\<close>

lemma ebind_simps [simp]: "ebind (Inl e) f = Inl e" "ebind (Inr x) f = f x"
  by (simp_all add: ebind_def)

lemma find_in_clients_objects:
  "list_all (\<lambda>c. case c of JObj _ \<Rightarrow> True | _ \<Rightarrow> False) cs \<Longrightarrow>
   find_in_clients email cs = Inr (find (has_label email) cs)"
proof (induction cs)
  case Nil
  then show ?case by simp
next
  case (Cons c cs)
  then show ?case
    by (cases c) (auto simp: dict_get_def has_label_def split: option.splits)
qed

lemma scan_malformed:
  assumes "malformed W inbound"
  shows "scan_inbounds W email (inbound # rest) = scan_inbounds W email rest"
proof -
  from assms obtain kvs t where i: "inbound = JObj kvs"
    and st: "(case map_of kvs ''settings'' of Some v \<Rightarrow> v | None \<Rightarrow> JStr ''{}'') = JStr t"
    and ld: "json_loads W t = Inl JSONDecodeError"
    by (auto simp: malformed_def split: json.splits)
  have g: "dict_get inbound ''settings'' (JStr ''{}'') = Inr (JStr t)"
    using i st by (simp add: dict_get_def)
  have l: "loads W (JStr t) = Inl JSONDecodeError"
    using ld by (simp add: loads_def)
  have d: "dict_get inbound ''id'' JNull = Inr (case map_of kvs ''id'' of Some v \<Rightarrow> v | None \<Rightarrow> JNull)"
    using i by (simp add: dict_get_def)
  show ?thesis
    by (simp add: g l d)
qed

lemma scan_decoded:
  assumes "decoded_clients W inbound = Some cs"
  shows "scan_inbounds W email (inbound # rest) =
     (if holds_label W email inbound then Inr (match_in W email inbound)
      else scan_inbounds W email rest)"
proof -
  from assms obtain kvs where i: "inbound = JObj kvs"
    by (cases inbound) (simp_all add: decoded_clients_def)
  from assms i obtain t where
    st: "(case map_of kvs ''settings'' of Some v \<Rightarrow> v | None \<Rightarrow> JStr ''{}'') = JStr t"
    by (cases "case map_of kvs ''settings'' of Some v \<Rightarrow> v | None \<Rightarrow> JStr ''{}''")
       (simp_all add: decoded_clients_def)
  from assms i st obtain v where lv: "json_loads W t = Inr v"
    by (cases "json_loads W t") (simp_all add: decoded_clients_def)
  with assms i st obtain d where ld: "json_loads W t = Inr (JObj d)"
    by (cases v) (simp_all add: decoded_clients_def)
  from assms i st ld obtain cs' where
    cl': "(case map_of d ''clients'' of Some v \<Rightarrow> v | None \<Rightarrow> JArr []) = JArr cs'"
    by (cases "case map_of d ''clients'' of Some v \<Rightarrow> v | None \<Rightarrow> JArr []")
       (simp_all add: decoded_clients_def)
  with assms i st ld have
    cl: "(case map_of d ''clients'' of Some v \<Rightarrow> v | None \<Rightarrow> JArr []) = JArr cs"
    and ob: "list_all (\<lambda>c. case c of JObj _ \<Rightarrow> True | _ \<Rightarrow> False) cs"
    by (simp_all add: decoded_clients_def split: if_splits)
  have f: "find_in_clients email cs = Inr (find (has_label email) cs)"
    by (rule find_in_clients_objects [OF ob])
  have h: "holds_label W email inbound = (find (has_label email) cs \<noteq> None)"
    using assms by (auto simp add: holds_label_def list_ex_iff find_None_iff)
  have g1: "dict_get inbound ''id'' JNull = Inr (case map_of kvs ''id'' of Some v \<Rightarrow> v | None \<Rightarrow> JNull)"
    and g2: "dict_get inbound ''settings'' (JStr ''{}'') = Inr (JStr t)"
    and g3: "dict_get inbound ''remark'' (JStr ''Unknown'')
        = Inr (case map_of kvs ''remark'' of Some v \<Rightarrow> v | None \<Rightarrow> JStr ''Unknown'')"
    using i st by (simp_all add: dict_get_def)
  have l: "loads W (JStr t) = Inr (JObj d)"
    using ld by (simp add: loads_def)
  have c: "ebind (dict_get (JObj d) ''clients'' (JArr [])) (\<lambda>clients.
           ebind (py_iter clients) (find_in_clients email)) = Inr (find (has_label email) cs)"
    using cl f by (simp add: dict_get_def py_iter_def)
  have m: "\<And>c. find (has_label email) cs = Some c \<Longrightarrow> match_in W email inbound =
        JObj [(''inbound_id'', case map_of kvs ''id'' of Some v \<Rightarrow> v | None \<Rightarrow> JNull),
              (''inbound_remark'', case map_of kvs ''remark'' of Some v \<Rightarrow> v | None \<Rightarrow> JStr ''Unknown''),
              (''client'', c)]"
    using assms i by (simp add: match_in_def)
  show ?thesis
  proof (cases "find (has_label email) cs")
    case None
    then show ?thesis by (simp add: g1 g2 g3 l c h)
  next
    case (Some c)
    then show ?thesis by (simp add: g1 g2 g3 l c h m)
  qed
qed

declare scan_inbounds.simps(2) [simp del]

lemma scan_characterised:
  assumes "\<forall>inbound \<in> set inbounds. malformed W inbound \<or> well_formed_inbound W inbound"
  shows "scan_inbounds W email inbounds =
     (case find (holds_label W email) inbounds of
        None \<Rightarrow> Inr JNull
      | Some inbound \<Rightarrow> Inr (match_in W email inbound))"
  using assms
proof (induction inbounds)
  case Nil
  then show ?case by simp
next
  case (Cons inbound rest)
  from Cons.prems have rest: "\<forall>inbound \<in> set rest. malformed W inbound \<or> well_formed_inbound W inbound"
    by simp
  show ?case
  proof (cases "decoded_clients W inbound")
    case None
    with Cons.prems have m: "malformed W inbound" by (simp add: well_formed_inbound_def)
    from None have "\<not> holds_label W email inbound" by (simp add: holds_label_def)
    with m Cons.IH [OF rest] show ?thesis by (simp add: scan_malformed)
  next
    case (Some cs)
    from scan_decoded [OF Some] Cons.IH [OF rest] show ?thesis by simp
  qed
qed


lemma scan_tail_cong:
  assumes "scan_inbounds W email rest = scan_inbounds W email rest'"
  shows "scan_inbounds W email (inbound # rest) = scan_inbounds W email (inbound # rest')"
  unfolding scan_inbounds.simps(2) assms by (rule refl)

lemma scan_skips_malformed:
  "scan_inbounds W email inbounds
     = scan_inbounds W email (filter (\<lambda>inbound. \<not> malformed W inbound) inbounds)"
proof (induction inbounds)
  case Nil
  then show ?case by simp
next
  case (Cons inbound rest)
  show ?case
  proof (cases "malformed W inbound")
    case True
    then have "scan_inbounds W email (inbound # rest) = scan_inbounds W email rest"
      by (rule scan_malformed)
    with True Cons show ?thesis by simp
  next
    case False
    then have f: "filter (\<lambda>inbound. \<not> malformed W inbound) (inbound # rest)
        = inbound # filter (\<lambda>inbound. \<not> malformed W inbound) rest" by simp
    show ?thesis
      unfolding f by (rule scan_tail_cong [OF Cons.IH])
  qed
qed

lemma match_in_not_None:
  assumes "holds_label W email inbound"
  shows "match_in W email inbound \<noteq> JNull"
proof -
  from assms obtain cs where d: "decoded_clients W inbound = Some cs"
    and e: "list_ex (has_label email) cs"
    by (cases "decoded_clients W inbound") (simp_all add: holds_label_def)
  from e obtain c where f: "find (has_label email) cs = Some c"
    by (cases "find (has_label email) cs") (auto simp: list_ex_iff find_None_iff)
  from d obtain kvs where i: "inbound = JObj kvs"
    by (cases inbound) (simp_all add: decoded_clients_def)
  from d f i show ?thesis by (simp add: match_in_def)
qed


lemma make_request_decoded:
  assumes "client s" and "panel W = scripted script" and "length (sent s) < length script"
    and "script ! length (sent s) = reply_body b" and "json_loads W b = Inr v"
    and "build_request method (base_url s @ ep) d (cookie_header s) = Some req"
  shows "make_request W method ep d retry s = (Inr v, s\<lparr>sent := sent s @ [req]\<rparr>)"
  using assms
  by (subst make_request.simps) (simp add: send_def scripted_def reply_body_def)

lemma make_request_answered:
  assumes "client s" and "length (sent s) < length script"
    and "script ! length (sent s) = reply_body b" and "map_of table b = Some v"
    and "build_request method (base_url s @ ep) d (cookie_header s) = Some req"
  shows "make_request (scenario script table) method ep d retry s
     = (Inr v, s\<lparr>sent := sent s @ [req]\<rparr>)"
  using assms
  by (intro make_request_decoded [where script = script and b = b]) (simp_all add: scenario_def)

lemma scan_other_error:
  assumes "field (JObj kvs) ''settings'' (JStr ''{}'') = JStr t"
    and "json_loads W t = Inl e" and "e \<noteq> JSONDecodeError"
  shows "scan_inbounds W email (JObj kvs # rest) = Inl e"
  using assms by (simp add: scan_inbounds.simps(2) field_def dict_get_def loads_def)

lemma find_client_listing:
  assumes "get_inbound_list W s = (Inr (JArr inbounds), s1)"
  shows "find_client_in_all_inbounds W email s = (scan_inbounds W email inbounds, s1)"
  using assms by (simp add: find_client_in_all_inbounds_def py_iter_def)

text \<open>
  Claim C3. When the listing call yields the inbounds \<open>inbounds\<close> and every one of them
  is well formed, \<^verbatim>\<open>find_client_in_all_inbounds\<close> returns the match of the first
  inbound, in list order, whose decoded client list holds a client with the label, and
  \<^verbatim>\<open>None\<close> (\<open>JNull\<close>) when no inbound holds one.
\<close>

theorem find_client_first_match:
  assumes "get_inbound_list W s = (Inr (JArr inbounds), s1)"
    and "\<forall>inbound \<in> set inbounds. well_formed_inbound W inbound"
  shows "find_client_in_all_inbounds W email s =
     (case find (holds_label W email) inbounds of
        None \<Rightarrow> Inr JNull
      | Some inbound \<Rightarrow> Inr (match_in W email inbound), s1)"
proof -
  from assms(2) have "\<forall>inbound \<in> set inbounds. malformed W inbound \<or> well_formed_inbound W inbound"
    by blast
  from scan_characterised [OF this] find_client_listing [OF assms(1)]
  show ?thesis by simp
qed

text \<open>
  In a listing whose inbounds are malformed (\<^verbatim>\<open>json.loads\<close> rejects their settings
  text with \<^verbatim>\<open>JSONDecodeError\<close>) or well formed, the scan gives the result
  it gives on the listing without the malformed inbounds; it does not fail, and a label
  held by any inbound of the listing is found, the match being the one of the first inbound
  that holds it. A settings text on which \<^verbatim>\<open>json.loads\<close> raises any other exception is
  not skipped: the scan ends with that exception when it reaches the inbound.
\<close>

theorem find_client_skips_malformed:
  assumes "get_inbound_list W s = (Inr (JArr inbounds), s1)"
    and "\<forall>inbound \<in> set inbounds. malformed W inbound \<or> well_formed_inbound W inbound"
  shows "find_client_in_all_inbounds W email s
           = (scan_inbounds W email (filter (\<lambda>inbound. \<not> malformed W inbound) inbounds), s1) \<and>
         find_client_in_all_inbounds W email s =
           (case find (holds_label W email) inbounds of
              None \<Rightarrow> Inr JNull
            | Some inbound \<Rightarrow> Inr (match_in W email inbound), s1) \<and>
         (\<forall>inbound \<in> set inbounds. holds_label W email inbound \<longrightarrow>
            (\<exists>found. fst (find_client_in_all_inbounds W email s) = Inr found \<and> found \<noteq> JNull)) \<and>
         (\<forall>kvs t e rest.
            field (JObj kvs) ''settings'' (JStr ''{}'') = JStr t \<and> json_loads W t = Inl e \<and>
            e \<noteq> JSONDecodeError \<longrightarrow>
            scan_inbounds W email (JObj kvs # rest) = Inl e)"
proof (intro conjI ballI impI allI)
  show "find_client_in_all_inbounds W email s
           = (scan_inbounds W email (filter (\<lambda>inbound. \<not> malformed W inbound) inbounds), s1)"
    using find_client_listing [OF assms(1)] scan_skips_malformed [of W email inbounds] by simp
next
  show c: "find_client_in_all_inbounds W email s =
           (case find (holds_label W email) inbounds of
              None \<Rightarrow> Inr JNull
            | Some inbound \<Rightarrow> Inr (match_in W email inbound), s1)"
    using scan_characterised [OF assms(2)] find_client_listing [OF assms(1)] by simp
  fix inbound
  assume "inbound \<in> set inbounds" and "holds_label W email inbound"
  then obtain first where f: "find (holds_label W email) inbounds = Some first"
    by (cases "find (holds_label W email) inbounds") (auto simp: find_None_iff)
  then have "holds_label W email first" by (auto simp: find_Some_iff)
  then have "match_in W email first \<noteq> JNull" by (rule match_in_not_None)
  with c f show "\<exists>found. fst (find_client_in_all_inbounds W email s) = Inr found \<and> found \<noteq> JNull"
    by simp
next
  fix kvs t e rest
  assume "field (JObj kvs) ''settings'' (JStr ''{}'') = JStr t \<and> json_loads W t = Inl e \<and>
            e \<noteq> JSONDecodeError"
  then show "scan_inbounds W email (JObj kvs # rest) = Inl e"
    by (intro scan_other_error) blast+
qed

lemma listing_world_list:
  "get_inbound_list (listing_world es) opened
     = (Inr (JArr (map (\<lambda>(n, remark, t). inbound_entry n remark t) es)),
        opened\<lparr>sent := [list_request]\<rparr>)"
proof -
  have "make_request (listing_world es) ''GET'' ''/panel/api/inbounds/list'' None True opened
      = (Inr (listing_value (map (\<lambda>(n, remark, t). inbound_entry n remark t) es)),
         opened\<lparr>sent := sent opened @ [list_request]\<rparr>)"
    unfolding listing_world_def
    by (rule make_request_answered
          [where b = "listing_text (map (\<lambda>(n, remark, t). inbound_text n remark t) es)"])
       (simp_all add: opened_simps build_request_def upper_GET cookie_header_def list_request_def)
  then show ?thesis
    by (simp add: get_inbound_list_def listing_value_def dict_get_def truthy_def opened_simps)
qed

lemma listing_world_loads:
  "json_loads (listing_world es) settings_bob
     = Inr (JObj [(''clients'', JArr [client_entry ''u-bob'' ''bob''])])"
  "json_loads (listing_world es) settings_alice
     = Inr (JObj [(''clients'', JArr [client_entry ''u-carol'' ''carol'',
                                       client_entry ''u-alice'' ''alice''])])"
  "json_loads (listing_world es) settings_broken = Inl JSONDecodeError"
  by (simp_all add: listing_world_def scenario_def settings_table_def listing_text_def
        settings_bob_def settings_alice_def settings_broken_def)

lemma decoded_examples:
  "decoded_clients (listing_world es) (inbound_entry n r settings_bob)
     = Some [client_entry ''u-bob'' ''bob'']"
  "decoded_clients (listing_world es) (inbound_entry n r settings_alice)
     = Some [client_entry ''u-carol'' ''carol'', client_entry ''u-alice'' ''alice'']"
  "decoded_clients (listing_world es) (inbound_entry n r settings_broken) = None"
  "malformed (listing_world es) (inbound_entry n r settings_broken)"
  by (simp_all add: decoded_clients_def malformed_def inbound_entry_def listing_world_loads client_entry_def)

lemma holds_examples:
  "\<not> holds_label (listing_world es) ''alice'' (inbound_entry n r settings_bob)"
  "holds_label (listing_world es) ''alice'' (inbound_entry n r settings_alice)"
  "\<not> holds_label (listing_world es) ''alice'' (inbound_entry n r settings_broken)"
  by (simp_all add: holds_label_def decoded_examples has_label_def client_entry_def)

lemma match_example:
  "match_in (listing_world es) ''alice'' (inbound_entry n r settings_alice)
     = JObj [(''inbound_id'', JInt n), (''inbound_remark'', JStr r),
             (''client'', client_entry ''u-alice'' ''alice'')]"
  using decoded_examples(2) [of es n r]
  by (simp add: match_in_def inbound_entry_def has_label_def client_entry_def)

text \<open>
  Three well-formed inbounds, the second and the third holding \<^verbatim>\<open>alice\<close>: the match is
  the second one's.
\<close>

theorem find_client_first_match_witness:
  "get_inbound_list
     (listing_world [(1, ''main'', settings_bob), (3, ''backup'', settings_alice),
                     (4, ''spare'', settings_alice)]) opened
     = (Inr (JArr [inbound_entry 1 ''main'' settings_bob, inbound_entry 3 ''backup'' settings_alice,
                   inbound_entry 4 ''spare'' settings_alice]), opened\<lparr>sent := [list_request]\<rparr>) \<and>
   list_all (well_formed_inbound
       (listing_world [(1, ''main'', settings_bob), (3, ''backup'', settings_alice),
                       (4, ''spare'', settings_alice)]))
     [inbound_entry 1 ''main'' settings_bob, inbound_entry 3 ''backup'' settings_alice,
      inbound_entry 4 ''spare'' settings_alice] \<and>
   find_client_in_all_inbounds
     (listing_world [(1, ''main'', settings_bob), (3, ''backup'', settings_alice),
                     (4, ''spare'', settings_alice)]) ''alice'' opened
     = (Inr (JObj [(''inbound_id'', JInt 3), (''inbound_remark'', JStr ''backup''),
                   (''client'', client_entry ''u-alice'' ''alice'')]),
        opened\<lparr>sent := [list_request]\<rparr>)"
proof -
  let ?W = "listing_world [(1, ''main'', settings_bob), (3, ''backup'', settings_alice),
                     (4, ''spare'', settings_alice)]"
  let ?is = "[inbound_entry 1 ''main'' settings_bob, inbound_entry 3 ''backup'' settings_alice,
      inbound_entry 4 ''spare'' settings_alice]"
  have l: "get_inbound_list ?W opened = (Inr (JArr ?is), opened\<lparr>sent := [list_request]\<rparr>)"
    using listing_world_list [of "[(1, ''main'', settings_bob), (3, ''backup'', settings_alice),
                     (4, ''spare'', settings_alice)]"] by simp
  have w: "\<forall>inbound \<in> set ?is. well_formed_inbound ?W inbound"
    by (simp add: well_formed_inbound_def decoded_examples)
  from find_client_first_match [OF l w, of "''alice''"] l w
  show ?thesis
    by (simp add: holds_examples match_example list_all_iff)
qed

text \<open>A malformed inbound before the one that holds \<^verbatim>\<open>alice\<close>.\<close>

theorem find_client_skips_malformed_witness:
  "get_inbound_list
     (listing_world [(2, ''broken'', settings_broken), (3, ''backup'', settings_alice)]) opened
     = (Inr (JArr [inbound_entry 2 ''broken'' settings_broken,
                   inbound_entry 3 ''backup'' settings_alice]), opened\<lparr>sent := [list_request]\<rparr>) \<and>
   malformed (listing_world [(2, ''broken'', settings_broken), (3, ''backup'', settings_alice)])
     (inbound_entry 2 ''broken'' settings_broken) \<and>
   well_formed_inbound (listing_world [(2, ''broken'', settings_broken), (3, ''backup'', settings_alice)])
     (inbound_entry 3 ''backup'' settings_alice) \<and>
   find_client_in_all_inbounds
     (listing_world [(2, ''broken'', settings_broken), (3, ''backup'', settings_alice)]) ''alice'' opened
     = (Inr (JObj [(''inbound_id'', JInt 3), (''inbound_remark'', JStr ''backup''),
                   (''client'', client_entry ''u-alice'' ''alice'')]),
        opened\<lparr>sent := [list_request]\<rparr>)"
proof -
  let ?W = "listing_world [(2, ''broken'', settings_broken), (3, ''backup'', settings_alice)]"
  let ?is = "[inbound_entry 2 ''broken'' settings_broken, inbound_entry 3 ''backup'' settings_alice]"
  have l: "get_inbound_list ?W opened = (Inr (JArr ?is), opened\<lparr>sent := [list_request]\<rparr>)"
    using listing_world_list [of "[(2, ''broken'', settings_broken), (3, ''backup'', settings_alice)]"]
    by simp
  have w: "\<forall>inbound \<in> set ?is. malformed ?W inbound \<or> well_formed_inbound ?W inbound"
    by (simp add: well_formed_inbound_def decoded_examples)
  from find_client_skips_malformed [OF l w, of "''alice''", THEN conjunct2, THEN conjunct1] l
  show ?thesis
    by (simp add: holds_examples match_example well_formed_inbound_def decoded_examples)
qed

lemma field_entry_settings:
  "field (inbound_entry n r t) ''settings'' (JStr ''{}'') = JStr t"
  by (simp add: inbound_entry_def field_def dict_get_def)




section \<open>Failed listings and traffic samples\<close>

lemma field_obj [simp]:
  "field (JObj kvs) k dflt = (case map_of kvs k of Some v \<Rightarrow> v | None \<Rightarrow> dflt)"
  by (simp add: field_def dict_get_def)

lemma dict_get_obj [simp]:
  "dict_get (JObj kvs) k dflt = Inr (case map_of kvs k of Some v \<Rightarrow> v | None \<Rightarrow> dflt)"
  by (simp add: dict_get_def)

lemma get_inbound_list_failed:
  assumes "make_request W ''GET'' ''/panel/api/inbounds/list'' None True s = (Inr (JObj env), s1)"
    and "\<not> truthy (field (JObj env) ''success'' JNull)"
  shows "get_inbound_list W s = (Inr (JArr []), s1)"
  using assms by (simp add: get_inbound_list_def)

text \<open>
  Claim C10. When the listing call returns an envelope whose success flag is absent or
  falsy, \<^verbatim>\<open>get_inbound_list\<close> returns the empty list instead of raising. The scan then
  reports \<^verbatim>\<open>None\<close>, \<^verbatim>\<open>delete_client_from_all_inbounds\<close> returns \<^verbatim>\<open>False\<close>, and
  \<^verbatim>\<open>create_client\<close> goes on to the create request, all as on a panel without inbounds.
\<close>

theorem failed_listing_reads_as_empty:
  assumes "make_request W ''GET'' ''/panel/api/inbounds/list'' None True s = (Inr (JObj env), s1)"
    and "\<not> truthy (field (JObj env) ''success'' JNull)"
  shows "get_inbound_list W s = (Inr (JArr []), s1) \<and>
         find_client_in_all_inbounds W email s = (Inr JNull, s1) \<and>
         delete_client_from_all_inbounds W email s = (Inr False, s1) \<and>
         create_client W email uuid inbound_id enable s = add_client W email uuid inbound_id enable s1"
proof -
  have l: "get_inbound_list W s = (Inr (JArr []), s1)"
    by (rule get_inbound_list_failed [OF assms])
  from find_client_listing [OF l] have f: "find_client_in_all_inbounds W email s = (Inr JNull, s1)"
    by simp
  from f have d: "delete_client_from_all_inbounds W email s = (Inr False, s1)"
    by (simp add: delete_client_from_all_inbounds_def truthy_def)
  from f have c: "create_client W email uuid inbound_id enable s
      = add_client W email uuid inbound_id enable s1"
    by (simp add: create_client_def truthy_def)
  from l f d c show ?thesis by simp
qed

lemma get_once:
  assumes "map_of table b = Some v"
  shows "make_request (scenario (reply_body b # later) table) ''GET'' ep None True opened
     = (Inr v, opened\<lparr>sent := [\<lparr>req_method = GET, req_url = ''https://panel.example:2053'' @ ep,
          req_cookie = Some ''session=old'', req_body = NoBody\<rparr>]\<rparr>)"
proof -
  have "make_request (scenario (reply_body b # later) table) ''GET'' ep None True opened
     = (Inr v, opened\<lparr>sent := sent opened @ [\<lparr>req_method = GET, req_url = ''https://panel.example:2053'' @ ep,
          req_cookie = Some ''session=old'', req_body = NoBody\<rparr>]\<rparr>)"
    by (rule make_request_answered [where b = b])
       (simp_all add: assms opened_simps build_request_def upper_GET cookie_header_def)
  then show ?thesis by (simp add: opened_simps)
qed

text \<open>The panel answers the listing with \<^verbatim>\<open>success: false\<close>.\<close>

theorem failed_listing_reads_as_empty_witness:
  "make_request (scenario [reply_body failure_text] [(failure_text, failure_value)])
      ''GET'' ''/panel/api/inbounds/list'' None True opened
     = (Inr failure_value, opened\<lparr>sent := [list_request]\<rparr>) \<and>
   \<not> truthy (field failure_value ''success'' JNull) \<and>
   get_inbound_list (scenario [reply_body failure_text] [(failure_text, failure_value)]) opened
     = (Inr (JArr []), opened\<lparr>sent := [list_request]\<rparr>) \<and>
   find_client_in_all_inbounds (scenario [reply_body failure_text] [(failure_text, failure_value)])
      ''alice'' opened
     = (Inr JNull, opened\<lparr>sent := [list_request]\<rparr>) \<and>
   delete_client_from_all_inbounds (scenario [reply_body failure_text] [(failure_text, failure_value)])
      ''alice'' opened
     = (Inr False, opened\<lparr>sent := [list_request]\<rparr>)"
proof -
  let ?W = "scenario [reply_body failure_text] [(failure_text, failure_value)]"
  have r: "make_request ?W ''GET'' ''/panel/api/inbounds/list'' None True opened
     = (Inr (JObj [(''success'', JBool False), (''msg'', JStr ''Something went wrong'')]),
        opened\<lparr>sent := [list_request]\<rparr>)"
    using get_once [of "[(failure_text, failure_value)]" failure_text failure_value "[]"
        "''/panel/api/inbounds/list''"]
    by (simp add: list_request_def failure_value_def)
  have t: "\<not> truthy (field (JObj [(''success'', JBool False), (''msg'', JStr ''Something went wrong'')])
      ''success'' JNull)"
    by (simp add: truthy_def)
  from failed_listing_reads_as_empty [OF r t, of "''alice''"] r t
  show ?thesis by (simp add: failure_value_def)
qed

lemma py_add_ints: "py_add (JInt a) (JInt b) = Inr (JInt (a + b))"
  by (simp add: py_add_def as_int_def)

lemma traffic_of_no_data:
  assumes "\<not> truthy (field (JObj env) ''success'' JNull) \<or> \<not> truthy (field (JObj env) ''obj'' JNull)"
  shows "traffic_of (JObj env) = Inr zero_traffic"
  using assms by (auto simp: traffic_of_def)

lemma traffic_of_data:
  assumes "truthy (field (JObj env) ''success'' JNull)"
    and "field (JObj env) ''obj'' JNull = JObj obj" and "obj \<noteq> []"
    and "field (JObj obj) ''up'' (JInt 0) = JInt u" and "field (JObj obj) ''down'' (JInt 0) = JInt d"
  shows "traffic_of (JObj env)
     = Inr (JObj [(''up'', JInt u), (''down'', JInt d), (''total'', JInt (u + d))])"
  using assms by (simp add: traffic_of_def truthy_def py_add_ints)

lemma traffic_of_total:
  assumes "traffic_of result = Inr sample"
  shows "py_add (field sample ''up'' JNull) (field sample ''down'' JNull)
     = Inr (field sample ''total'' JNull)"
proof (cases result)
  case (JObj env)
  show ?thesis
  proof (cases "truthy (field (JObj env) ''success'' JNull) \<and> truthy (field (JObj env) ''obj'' JNull)")
    case False
    then have "traffic_of (JObj env) = Inr zero_traffic"
      by (intro traffic_of_no_data) blast
    with assms JObj have "sample = zero_traffic" by simp
    then show ?thesis by (simp add: zero_traffic_def py_add_ints)
  next
    case True
    show ?thesis
    proof (cases "field (JObj env) ''obj'' JNull")
      case (JObj obj)
      let ?up = "field (JObj obj) ''up'' (JInt 0)" and ?down = "field (JObj obj) ''down'' (JInt 0)"
      from True JObj \<open>result = JObj env\<close> assms
      have "ebind (py_add ?up ?down) (\<lambda>total.
                Inr (JObj [(''up'', ?up), (''down'', ?down), (''total'', total)])) = Inr sample"
        by (simp add: traffic_of_def)
      then obtain total where "py_add ?up ?down = Inr total"
        and "sample = JObj [(''up'', ?up), (''down'', ?down), (''total'', total)]"
        by (cases "py_add ?up ?down") auto
      then show ?thesis by simp
    qed (use True \<open>result = JObj env\<close> assms in \<open>simp_all add: traffic_of_def dict_get_def\<close>)
  qed
qed (use assms in \<open>simp_all add: traffic_of_def dict_get_def\<close>)

text \<open>
  Claim C5. When the answer to the traffic request is an envelope without a truthy success
  flag or without a truthy data object, \<^verbatim>\<open>get_client_traffic\<close> returns the zeroed
  sample as a normal value. Every sample it returns has \<^verbatim>\<open>total\<close> equal to \<^verbatim>\<open>up + down\<close>;
  with integer counters \<open>u\<close> and \<open>d\<close> in the data object the sample is \<open>u\<close>, \<open>d\<close>, \<open>u + d\<close>.
\<close>

theorem get_client_traffic_sample:
  assumes "make_request W ''GET'' (''/panel/api/inbounds/getClientTraffics/'' @ email) None True s
             = (Inr (JObj env), s1)"
  shows "(\<not> truthy (field (JObj env) ''success'' JNull) \<or> \<not> truthy (field (JObj env) ''obj'' JNull)
            \<longrightarrow> get_client_traffic W email s = (Inr zero_traffic, s1)) \<and>
         (\<forall>sample. get_client_traffic W email s = (Inr sample, s1) \<longrightarrow>
            py_add (field sample ''up'' JNull) (field sample ''down'' JNull)
              = Inr (field sample ''total'' JNull)) \<and>
         (\<forall>obj u d.
            truthy (field (JObj env) ''success'' JNull) \<and>
            field (JObj env) ''obj'' JNull = JObj obj \<and> obj \<noteq> [] \<and>
            field (JObj obj) ''up'' (JInt 0) = JInt u \<and> field (JObj obj) ''down'' (JInt 0) = JInt d
            \<longrightarrow> get_client_traffic W email s
                  = (Inr (JObj [(''up'', JInt u), (''down'', JInt d), (''total'', JInt (u + d))]), s1))"
proof -
  have g: "get_client_traffic W email s = (traffic_of (JObj env), s1)"
    using assms by (simp add: get_client_traffic_def)
  show ?thesis
  proof (intro conjI allI impI)
    assume "\<not> truthy (field (JObj env) ''success'' JNull) \<or> \<not> truthy (field (JObj env) ''obj'' JNull)"
    then show "get_client_traffic W email s = (Inr zero_traffic, s1)"
      unfolding g by (simp only: traffic_of_no_data)
  next
    fix sample
    assume "get_client_traffic W email s = (Inr sample, s1)"
    with g have "traffic_of (JObj env) = Inr sample" by simp
    then show "py_add (field sample ''up'' JNull) (field sample ''down'' JNull)
              = Inr (field sample ''total'' JNull)"
      by (rule traffic_of_total)
  next
    fix obj u d
    assume "truthy (field (JObj env) ''success'' JNull) \<and>
            field (JObj env) ''obj'' JNull = JObj obj \<and> obj \<noteq> [] \<and>
            field (JObj obj) ''up'' (JInt 0) = JInt u \<and> field (JObj obj) ''down'' (JInt 0) = JInt d"
    then have "traffic_of (JObj env)
        = Inr (JObj [(''up'', JInt u), (''down'', JInt d), (''total'', JInt (u + d))])"
      by (intro traffic_of_data) blast+
    with g show "get_client_traffic W email s
        = (Inr (JObj [(''up'', JInt u), (''down'', JInt d), (''total'', JInt (u + d))]), s1)"
      by simp
  qed
qed

text \<open>A label without usage (\<^verbatim>\<open>obj: null\<close>), and one with 10 bytes up and 32 down.\<close>

theorem get_client_traffic_sample_witness:
  "get_client_traffic (scenario [reply_body no_traffic_text] [(no_traffic_text, no_traffic_value)])
      ''alice'' opened
     = (Inr (JObj [(''up'', JInt 0), (''down'', JInt 0), (''total'', JInt 0)]),
        opened\<lparr>sent := [\<lparr>req_method = GET,
           req_url = ''https://panel.example:2053/panel/api/inbounds/getClientTraffics/alice'',
           req_cookie = Some ''session=old'', req_body = NoBody\<rparr>]\<rparr>) \<and>
   get_client_traffic (scenario [reply_body traffic_text] [(traffic_text, traffic_value)])
      ''alice'' opened
     = (Inr (JObj [(''up'', JInt 10), (''down'', JInt 32), (''total'', JInt 42)]),
        opened\<lparr>sent := [\<lparr>req_method = GET,
           req_url = ''https://panel.example:2053/panel/api/inbounds/getClientTraffics/alice'',
           req_cookie = Some ''session=old'', req_body = NoBody\<rparr>]\<rparr>)"
proof -
  let ?s1 = "opened\<lparr>sent := [\<lparr>req_method = GET,
           req_url = ''https://panel.example:2053/panel/api/inbounds/getClientTraffics/alice'',
           req_cookie = Some ''session=old'', req_body = NoBody\<rparr>]\<rparr>"
  have a: "make_request (scenario [reply_body no_traffic_text] [(no_traffic_text, no_traffic_value)])
      ''GET'' (''/panel/api/inbounds/getClientTraffics/'' @ ''alice'') None True opened
     = (Inr (JObj [(''success'', JBool True), (''msg'', JStr []), (''obj'', JNull)]), ?s1)"
    using get_once [of "[(no_traffic_text, no_traffic_value)]" no_traffic_text no_traffic_value "[]"
        "''/panel/api/inbounds/getClientTraffics/alice''"]
    by (simp add: no_traffic_value_def)
  have b: "make_request (scenario [reply_body traffic_text] [(traffic_text, traffic_value)])
      ''GET'' (''/panel/api/inbounds/getClientTraffics/'' @ ''alice'') None True opened
     = (Inr (JObj [(''success'', JBool True), (''obj'', JObj [(''up'', JInt 10), (''down'', JInt 32)])]), ?s1)"
    using get_once [of "[(traffic_text, traffic_value)]" traffic_text traffic_value "[]"
        "''/panel/api/inbounds/getClientTraffics/alice''"]
    by (simp add: traffic_value_def)
  from get_client_traffic_sample [OF a, THEN conjunct1]
  have 1: "get_client_traffic (scenario [reply_body no_traffic_text] [(no_traffic_text, no_traffic_value)])
      ''alice'' opened = (Inr zero_traffic, ?s1)"
    by (simp add: truthy_def)
  from get_client_traffic_sample [OF b, THEN conjunct2, THEN conjunct2, rule_format,
      of "[(''up'', JInt 10), (''down'', JInt 32)]" 10 32]
  have 2: "get_client_traffic (scenario [reply_body traffic_text] [(traffic_text, traffic_value)])
      ''alice'' opened
     = (Inr (JObj [(''up'', JInt 10), (''down'', JInt 32), (''total'', JInt 42)]), ?s1)"
    by (simp add: truthy_def)
  from 1 2 show ?thesis by (simp add: zero_traffic_def)
qed


section \<open>Duplicate labels in create_client\<close>

lemma re_search_sublist:
  "re_search_duplicate m = Some g \<Longrightarrow> sublist ''Duplicate email'' m"
proof (induction m)
  case Nil
  then show ?case by simp
next
  case (Cons c cs)
  show ?case
  proof (cases "prefix ''Duplicate email: '' (c # cs)")
    case True
    then obtain r where "c # cs = ''Duplicate email: '' @ r" by (auto simp: prefix_def)
    then have "c # cs = [] @ ''Duplicate email'' @ ('': '' @ r)" by simp
    then show ?thesis unfolding sublist_def by blast
  next
    case False
    with Cons.prems have "re_search_duplicate cs = Some g"
      by (auto simp: Let_def split: if_splits)
    from Cons.IH [OF this] obtain ps ss where "cs = ps @ ''Duplicate email'' @ ss"
      unfolding sublist_def by blast
    then have "c # cs = (c # ps) @ ''Duplicate email'' @ ss" by simp
    then show ?thesis unfolding sublist_def by blast
  qed
qed

lemma create_failure_duplicate:
  assumes "re_search_duplicate m = Some g"
  shows "create_failure (JStr m) = XUIClientError (DuplicateEmail (strip g))"
  using assms re_search_sublist [OF assms] by (simp add: create_failure_def py_contains_def)

lemma re_search_exact:
  assumes "label \<noteq> []" and "CHR 0x0A \<notin> set label"
  shows "re_search_duplicate (''Duplicate email: '' @ label) = Some label"
proof -
  from assms(2) have t: "takeWhile (\<lambda>x. x \<noteq> CHR 0x0A) label = label"
    by (auto simp: takeWhile_eq_all_conv)
  obtain c cs where cc: "''Duplicate email: '' @ label = c # cs" by simp
  have d: "drop (length ''Duplicate email: '') (c # cs) = label"
    unfolding cc [symmetric] by simp
  have p: "prefix ''Duplicate email: '' (c # cs)"
    unfolding cc [symmetric] by simp
  have "re_search_duplicate (c # cs) = Some label"
    unfolding re_search_duplicate.simps Let_def d t using p assms(1) by simp
  then show ?thesis unfolding cc .
qed

lemma match_in_remark:
  assumes "holds_label W email inbound"
  shows "truthy (match_in W email inbound) \<and>
         dict_index (match_in W email inbound) ''inbound_remark''
           = Inr (field inbound ''remark'' (JStr ''Unknown''))"
proof -
  from assms obtain cs where d: "decoded_clients W inbound = Some cs"
    and e: "list_ex (has_label email) cs"
    by (cases "decoded_clients W inbound") (simp_all add: holds_label_def)
  from e obtain c where f: "find (has_label email) cs = Some c"
    by (cases "find (has_label email) cs") (auto simp: list_ex_iff find_None_iff)
  from d obtain kvs where i: "inbound = JObj kvs"
    by (cases inbound) (simp_all add: decoded_clients_def)
  from d f i show ?thesis by (simp add: match_in_def truthy_def dict_index_def)
qed

lemma find_client_characterised:
  assumes "get_inbound_list W s = (Inr (JArr inbounds), s1)"
    and "\<forall>inbound \<in> set inbounds. malformed W inbound \<or> well_formed_inbound W inbound"
  shows "find_client_in_all_inbounds W email s =
           (case find (holds_label W email) inbounds of
              None \<Rightarrow> Inr JNull
            | Some inbound \<Rightarrow> Inr (match_in W email inbound), s1)"
  using scan_characterised [OF assms(2)] find_client_listing [OF assms(1)] by simp

lemma create_client_prescan:
  assumes "get_inbound_list W s = (Inr (JArr inbounds), s1)"
    and "\<forall>inbound \<in> set inbounds. malformed W inbound \<or> well_formed_inbound W inbound"
    and f: "find (holds_label W email) inbounds = Some inbound"
  shows "create_client W email uuid inbound_id enable s
     = (Inl (XUIClientError (ClientAlreadyExists (field inbound ''remark'' (JStr ''Unknown'')))), s1)"
proof -
  from f have "holds_label W email inbound" by (auto simp: find_Some_iff)
  from match_in_remark [OF this] find_client_characterised [OF assms(1,2), of email] f
  show ?thesis by (simp add: create_client_def)
qed

text \<open>
  Claim C2, as amended. Let the listing yield inbounds that are malformed or well formed.
  If some inbound holds the label, \<^verbatim>\<open>create_client\<close> fails in the state reached by the
  listing, so without a request to the create endpoint, and its error message interpolates
  the remark of the first inbound that holds the label and nothing else. If no inbound
  holds it and the create request is answered with a failure whose message matches
  \<^verbatim>\<open>Duplicate email: (.+)\<close>, the error carries the matched text with the whitespace at
  its ends stripped; for a message that is \<^verbatim>\<open>Duplicate email: \<close> followed by a label on
  one line, that text is the label, stripped in the same way. Both errors are
  \<^verbatim>\<open>XUIClientError\<close>.
\<close>

theorem create_client_duplicate:
  assumes "get_inbound_list W s = (Inr (JArr inbounds), s1)"
    and "\<forall>inbound \<in> set inbounds. malformed W inbound \<or> well_formed_inbound W inbound"
  shows "(\<forall>inbound. find (holds_label W email) inbounds = Some inbound \<longrightarrow>
            create_client W email uuid inbound_id enable s
              = (Inl (XUIClientError (ClientAlreadyExists (field inbound ''remark'' (JStr ''Unknown'')))),
                 s1) \<and>
            interpolated (ClientAlreadyExists (field inbound ''remark'' (JStr ''Unknown'')))
              = [field inbound ''remark'' (JStr ''Unknown'')]) \<and>
         (find (holds_label W email) inbounds = None \<longrightarrow>
            (\<forall>env m label s2.
               make_request W ''POST'' ''/panel/api/inbounds/addClient''
                 (Some (request_data W email uuid inbound_id enable)) True s1 = (Inr (JObj env), s2) \<and>
               \<not> truthy (field (JObj env) ''success'' JNull) \<and>
               field (JObj env) ''msg'' (JStr ''Unknown error'') = JStr m \<and>
               re_search_duplicate m = Some label \<longrightarrow>
               create_client W email uuid inbound_id enable s
                 = (Inl (XUIClientError (DuplicateEmail (strip label))), s2))) \<and>
         (\<forall>label. label \<noteq> [] \<and> CHR 0x0A \<notin> set label \<longrightarrow>
            create_failure (JStr (''Duplicate email: '' @ label))
              = XUIClientError (DuplicateEmail (strip label)))"
proof -
  note c = find_client_characterised [OF assms, of email]
  show ?thesis
  proof (intro conjI allI impI)
    fix inbound
    assume f: "find (holds_label W email) inbounds = Some inbound"
    show "create_client W email uuid inbound_id enable s
              = (Inl (XUIClientError (ClientAlreadyExists (field inbound ''remark'' (JStr ''Unknown'')))),
                 s1)"
      by (rule create_client_prescan [OF assms f])
    show "interpolated (ClientAlreadyExists (field inbound ''remark'' (JStr ''Unknown'')))
              = [field inbound ''remark'' (JStr ''Unknown'')]"
      by (simp add: interpolated_def)
  next
    fix env m label s2
    assume n: "find (holds_label W email) inbounds = None"
      and h: "make_request W ''POST'' ''/panel/api/inbounds/addClient''
                 (Some (request_data W email uuid inbound_id enable)) True s1 = (Inr (JObj env), s2) \<and>
               \<not> truthy (field (JObj env) ''success'' JNull) \<and>
               field (JObj env) ''msg'' (JStr ''Unknown error'') = JStr m \<and>
               re_search_duplicate m = Some label"
    from c n have "create_client W email uuid inbound_id enable s
        = add_client W email uuid inbound_id enable s1"
      by (simp add: create_client_def truthy_def)
    also from h have "\<dots> = (Inl (create_failure (JStr m)), s2)"
      by (simp add: add_client_def)
    also from h have "create_failure (JStr m) = XUIClientError (DuplicateEmail (strip label))"
      by (intro create_failure_duplicate) blast
    finally show "create_client W email uuid inbound_id enable s
                 = (Inl (XUIClientError (DuplicateEmail (strip label))), s2)" .
  next
    fix label :: string
    assume "label \<noteq> [] \<and> CHR 0x0A \<notin> set label"
    then have "re_search_duplicate (''Duplicate email: '' @ label) = Some label"
      by (intro re_search_exact) blast+
    then show "create_failure (JStr (''Duplicate email: '' @ label))
              = XUIClientError (DuplicateEmail (strip label))"
      by (rule create_failure_duplicate)
  qed
qed

lemma get_list_first:
  "get_inbound_list (scenario (reply_body b # later) ((b, listing_value es) # tbl)) opened
     = (Inr (JArr es), opened\<lparr>sent := [list_request]\<rparr>)"
proof -
  have "make_request (scenario (reply_body b # later) ((b, listing_value es) # tbl))
      ''GET'' ''/panel/api/inbounds/list'' None True opened
      = (Inr (listing_value es), opened\<lparr>sent := [list_request]\<rparr>)"
    using get_once [of "(b, listing_value es) # tbl" b "listing_value es" later
        "''/panel/api/inbounds/list''"]
    by (simp add: list_request_def)
  then show ?thesis
    by (simp add: get_inbound_list_def listing_value_def truthy_def)
qed

lemmas text_defs = listing_text_def inbound_text_def settings_bob_def settings_alice_def
  settings_broken_def duplicate_text_def new_alice_text_def escaped_def

lemma duplicate_world_loads:
  "json_loads duplicate_world settings_bob
     = Inr (JObj [(''clients'', JArr [client_entry ''u-bob'' ''bob''])])"
  "json_loads duplicate_world duplicate_text = Inr duplicate_value"
  by (simp_all add: duplicate_world_def scenario_def settings_table_def text_defs)

lemma duplicate_world_data:
  "request_data duplicate_world ''alice'' ''u-new'' 1 True
     = JObj [(''id'', JInt 1), (''settings'', JStr new_alice_text)]"
  by (simp add: request_data_def duplicate_world_def scenario_def listing_value_def
        duplicate_value_def new_client_settings_def)

lemma strip_alice: "strip ''alice'' = ''alice''"
  by (simp add: strip_def lstrip_def rstrip_def space_chars_def strip_left.simps)

text \<open>
  The panel lists an inbound that holds \<^verbatim>\<open>bob\<close> only and answers the create request for
  \<^verbatim>\<open>alice\<close> with a duplicate report.
\<close>

theorem create_client_duplicate_witness:
  "get_inbound_list duplicate_world opened
     = (Inr (JArr [inbound_entry 1 ''main'' settings_bob]), opened\<lparr>sent := [list_request]\<rparr>) \<and>
   well_formed_inbound duplicate_world (inbound_entry 1 ''main'' settings_bob) \<and>
   find (holds_label duplicate_world ''alice'') [inbound_entry 1 ''main'' settings_bob] = None \<and>
   fst (make_request duplicate_world ''POST'' ''/panel/api/inbounds/addClient''
          (Some (JObj [(''id'', JInt 1), (''settings'', JStr new_alice_text)])) True
          (opened\<lparr>sent := [list_request]\<rparr>)) = Inr duplicate_value \<and>
   re_search_duplicate ''Something went wrong! Failed: Duplicate email: alice'' = Some ''alice'' \<and>
   fst (create_client duplicate_world ''alice'' ''u-new'' 1 True opened)
     = Inl (XUIClientError (DuplicateEmail ''alice''))"
proof -
  let ?s1 = "opened\<lparr>sent := [list_request]\<rparr>"
  let ?post = "\<lparr>req_method = POST, req_url = ''https://panel.example:2053/panel/api/inbounds/addClient'',
      req_cookie = Some ''session=old'',
      req_body = JsonBody (Some (JObj [(''id'', JInt 1), (''settings'', JStr new_alice_text)]))\<rparr>"
  have l: "get_inbound_list duplicate_world opened
     = (Inr (JArr [inbound_entry 1 ''main'' settings_bob]), ?s1)"
    unfolding duplicate_world_def by (rule get_list_first)
  have d: "decoded_clients duplicate_world (inbound_entry 1 ''main'' settings_bob)
      = Some [client_entry ''u-bob'' ''bob'']"
    by (simp add: decoded_clients_def inbound_entry_def duplicate_world_loads client_entry_def)
  then have w: "\<forall>inbound \<in> set [inbound_entry 1 ''main'' settings_bob].
      malformed duplicate_world inbound \<or> well_formed_inbound duplicate_world inbound"
    by (simp add: well_formed_inbound_def)
  from d have n: "find (holds_label duplicate_world ''alice'') [inbound_entry 1 ''main'' settings_bob] = None"
    by (simp add: holds_label_def has_label_def client_entry_def)
  have p: "make_request duplicate_world ''POST'' ''/panel/api/inbounds/addClient''
          (Some (request_data duplicate_world ''alice'' ''u-new'' 1 True)) True ?s1
      = (Inr (JObj [(''success'', JBool False),
           (''msg'', JStr ''Something went wrong! Failed: Duplicate email: alice'')]),
         ?s1\<lparr>sent := sent ?s1 @ [?post]\<rparr>)"
    unfolding duplicate_world_data duplicate_value_def [symmetric]
    unfolding duplicate_world_def
    by (rule make_request_answered [where b = duplicate_text])
       (simp_all add: opened_simps build_request_def upper_GET cookie_header_def text_defs)
  have r: "re_search_duplicate ''Something went wrong! Failed: Duplicate email: alice'' = Some ''alice''"
    by (simp add: Let_def)
  from create_client_duplicate [OF l w, of "''alice''" "''u-new''" 1 True, THEN conjunct2, THEN conjunct1,
      rule_format, where env = "[(''success'', JBool False),
           (''msg'', JStr ''Something went wrong! Failed: Duplicate email: alice'')]"
         and m = "''Something went wrong! Failed: Duplicate email: alice''" and label = "''alice''"
         and ?s2.0 = "?s1\<lparr>sent := sent ?s1 @ [?post]\<rparr>"] n p r
  have c: "fst (create_client duplicate_world ''alice'' ''u-new'' 1 True opened)
     = Inl (XUIClientError (DuplicateEmail ''alice''))"
    by (simp add: truthy_def strip_alice)
  from p have p': "fst (make_request duplicate_world ''POST'' ''/panel/api/inbounds/addClient''
          (Some (JObj [(''id'', JInt 1), (''settings'', JStr new_alice_text)])) True ?s1)
      = Inr duplicate_value"
    by (simp add: duplicate_world_data duplicate_value_def)
  from l d n p' r c show ?thesis by (simp add: well_formed_inbound_def)
qed

text \<open>
  Claim C2 as stated fails on the pre-scan path: the inbound \<^verbatim>\<open>main\<close> holds \<^verbatim>\<open>alice\<close>,
  and the error raised for a second \<^verbatim>\<open>alice\<close> interpolates the remark \<^verbatim>\<open>main\<close> and
  nothing else, so here it does not carry the label.
\<close>

theorem create_client_prescan_counterexample:
  "create_client (listing_world [(1, ''main'', settings_alice)]) ''alice'' ''u-new'' 1 True opened
     = (Inl (XUIClientError (ClientAlreadyExists (JStr ''main''))), opened\<lparr>sent := [list_request]\<rparr>) \<and>
   JStr ''alice'' \<notin> set (interpolated (ClientAlreadyExists (JStr ''main'')))"
proof -
  let ?W = "listing_world [(1, ''main'', settings_alice)]"
  have l: "get_inbound_list ?W opened
      = (Inr (JArr [inbound_entry 1 ''main'' settings_alice]), opened\<lparr>sent := [list_request]\<rparr>)"
    using listing_world_list [of "[(1, ''main'', settings_alice)]"] by simp
  have w: "\<forall>inbound \<in> set [inbound_entry 1 ''main'' settings_alice].
      malformed ?W inbound \<or> well_formed_inbound ?W inbound"
    by (simp add: well_formed_inbound_def decoded_examples)
  have f: "find (holds_label ?W ''alice'') [inbound_entry 1 ''main'' settings_alice]
      = Some (inbound_entry 1 ''main'' settings_alice)"
    by (simp add: holds_examples)
  from create_client_prescan [OF l w f, of "''u-new''" 1 True]
  show ?thesis by (simp add: inbound_entry_def interpolated_def)
qed


section \<open>The link builder fails softly\<close>

lemma ebind_eq_Inr: "ebind m f = Inr y \<longleftrightarrow> (\<exists>x. m = Inr x \<and> f x = Inr y)"
  by (cases m) simp_all

lemma find_in_clients_Some:
  "find_in_clients email cs = Inr (Some c) \<Longrightarrow> c \<in> set cs \<and> has_label email c"
proof (induction cs)
  case Nil
  then show ?case by simp
next
  case (Cons x xs)
  show ?case
  proof (cases x)
    case (JObj kvs)
    with Cons show ?thesis
      by (auto simp: has_label_def split: if_splits option.splits)
  qed (use Cons.prems in \<open>simp_all add: dict_get_def\<close>)
qed

lemma ebindE:
  assumes "ebind m f = Inr y"
  obtains x where "m = Inr x" and "f x = Inr y"
  using assms by (cases m) simp_all

lemma field_of_get: "dict_get d k dflt = Inr v \<Longrightarrow> field d k dflt = v"
  by (simp add: field_def)

lemma link_of_inbound_Some:
  assumes "link_of_inbound W s email inbound_data = Inr (Some link)"
  shows "truthy (field inbound_data ''success'' JNull) \<and>
         truthy (field inbound_data ''obj'' JNull) \<and>
         list_ex (has_label email) (listed_clients W (field inbound_data ''obj'' JNull)) \<and>
         protocol_of (field inbound_data ''obj'' JNull)
           \<in> {Some ''vless'', Some ''vmess'', Some ''trojan''}"
  using assms unfolding link_of_inbound_def
  apply (elim ebindE)
  apply (simp split: if_splits)
  apply (elim ebindE)
  apply (simp split: if_splits)
  apply (elim ebindE)
  apply (simp split: option.splits if_splits)
  apply (elim conjE ebindE)
  apply (drule find_in_clients_Some)
  apply (auto simp: field_def listed_clients_def protocol_of_def list_ex_iff split: if_splits)
  done

text \<open>
  Claim C9. \<^verbatim>\<open>get_client_link\<close> returns \<^verbatim>\<open>None\<close> as a normal value, and never raises,
  whenever the fetch of the inbound raises or its envelope has no truthy success flag, the
  envelope carries no truthy inbound object, no client listed by the decoded settings has
  the label, or the protocol tag (compared in lower case, as the source does) is none of
  \<^verbatim>\<open>vless\<close>, \<^verbatim>\<open>vmess\<close>, \<^verbatim>\<open>trojan\<close>.
\<close>

theorem get_client_link_soft_fail:
  assumes "get_inbound W inbound_id s = (r, s1)"
  shows "((\<exists>e. r = Inl e) \<or>
          (\<exists>inbound_data. r = Inr inbound_data \<and>
             (\<not> truthy (field inbound_data ''success'' JNull) \<or>
              \<not> truthy (field inbound_data ''obj'' JNull) \<or>
              \<not> list_ex (has_label email) (listed_clients W (field inbound_data ''obj'' JNull)) \<or>
              protocol_of (field inbound_data ''obj'' JNull)
                \<notin> {Some ''vless'', Some ''vmess'', Some ''trojan''})))
         \<longrightarrow> get_client_link W inbound_id email s = (None, s1)"
proof (cases r)
  case (Inl e)
  with assms show ?thesis by (simp add: get_client_link_def)
next
  case (Inr inbound_data)
  show ?thesis
  proof (cases "link_of_inbound W s1 email inbound_data")
    case inner: (Inl e)
    with Inr assms show ?thesis by (simp add: get_client_link_def)
  next
    case inner: (Inr link)
    show ?thesis
    proof (cases link)
      case None
      with inner Inr assms show ?thesis by (simp add: get_client_link_def)
    next
      case (Some l)
      with inner have "link_of_inbound W s1 email inbound_data = Inr (Some l)" by simp
      from link_of_inbound_Some [OF this] Inr show ?thesis by auto
    qed
  qed
qed

lemma show_small: "show_int 7 = ''7''" "show_int 443 = ''443''"
  by (simp_all add: show_int_def digit_char_def)

text \<open>An inbound of protocol \<^verbatim>\<open>shadowsocks\<close> that holds the label.\<close>

theorem get_client_link_soft_fail_witness:
  "get_inbound (scenario [reply_body shadowsocks_text] [(shadowsocks_text, shadowsocks_value)]) 7 opened
     = (Inr shadowsocks_value,
        opened\<lparr>sent := [\<lparr>req_method = GET,
           req_url = ''https://panel.example:2053/panel/api/inbounds/get/7'',
           req_cookie = Some ''session=old'', req_body = NoBody\<rparr>]\<rparr>) \<and>
   protocol_of (field shadowsocks_value ''obj'' JNull) = Some ''shadowsocks'' \<and>
   get_client_link (scenario [reply_body shadowsocks_text] [(shadowsocks_text, shadowsocks_value)])
      7 ''alice'' opened
     = (None,
        opened\<lparr>sent := [\<lparr>req_method = GET,
           req_url = ''https://panel.example:2053/panel/api/inbounds/get/7'',
           req_cookie = Some ''session=old'', req_body = NoBody\<rparr>]\<rparr>)"
proof -
  let ?W = "scenario [reply_body shadowsocks_text] [(shadowsocks_text, shadowsocks_value)]"
  let ?s1 = "opened\<lparr>sent := [\<lparr>req_method = GET,
           req_url = ''https://panel.example:2053/panel/api/inbounds/get/7'',
           req_cookie = Some ''session=old'', req_body = NoBody\<rparr>]\<rparr>"
  have g: "get_inbound ?W 7 opened = (Inr shadowsocks_value, ?s1)"
    using get_once [of "[(shadowsocks_text, shadowsocks_value)]" shadowsocks_text shadowsocks_value
        "[]" "''/panel/api/inbounds/get/7''"]
    by (simp add: get_inbound_def show_small)
  have p: "protocol_of (field shadowsocks_value ''obj'' JNull) = Some ''shadowsocks''"
    by (simp add: protocol_of_def shadowsocks_value_def py_lower_def lower_def lower_char_def)
  from get_client_link_soft_fail [OF g, of "''alice''"] p g
  show ?thesis by simp
qed


section \<open>Links\<close>

declare replace.simps [simp del]




























text \<open>
  Claim C6. For an inbound without a listen address the server of a link is to be the host
  of the panel's base address. The builders cut the base address, without its scheme, at
  the first colon; a base address with a path and no port has none before its path, and for
  \<^verbatim>\<open>https://panel.example/xui/\<close> the server is \<^verbatim>\<open>panel.example/xui\<close>, as the trojan link
  shows.
\<close>

theorem server_address_keeps_path:
  "base_url (init ''https://panel.example/xui/'' ''admin'' ''secret'') = ''https://panel.example/xui'' \<and>
   server_address (init ''https://panel.example/xui/'' ''admin'' ''secret'') wildcard_inbound
     = Inr (JStr ''panel.example/xui'') \<and>
   build_trojan_link (scenario [] []) (init ''https://panel.example/xui/'' ''admin'' ''secret'')
      (JObj [(''password'', JStr ''pw''), (''email'', JStr ''alice'')]) wildcard_inbound
      (JObj [(''network'', JStr ''tcp''), (''security'', JStr ''none'')]) (JInt 443)
      (JStr ''tcp'') (JStr ''none'')
     = Inr ''trojan://pw@panel.example/xui:443?type=tcp&security=none#alice''"
proof -
  have b: "base_url (init ''https://panel.example/xui/'' ''admin'' ''secret'') = ''https://panel.example/xui''"
    by (simp add: init_def rstrip_slash_def)
  have h: "base_host ''https://panel.example/xui'' = ''panel.example/xui''"
    by (simp add: base_host_def before_colon_def replace.simps)
  have s: "server_address (init ''https://panel.example/xui/'' ''admin'' ''secret'') wildcard_inbound
     = Inr (JStr ''panel.example/xui'')"
    by (simp add: server_address_def wildcard_inbound_def b h)
  have q: "urlencode (scenario [] []) [] [(''type'', JStr ''tcp''), (''security'', JStr ''none'')]
      = ''type=tcp&security=none''"
    by (simp add: urlencode_def py_str_def quote_plus_def quote_from_bytes_def always_safe_def)
  from b s show ?thesis
    by (simp add: build_trojan_link_def py_str_def show_small q quote_def quote_from_bytes_def
          always_safe_def)
qed

end
